theory Spec2Isabelle
  imports Complex_Main
begin

section \<open>JavaScript primitives the server relies on\<close>

text \<open>
  The backend is a Node/Express program. The primitives of the language that its
  functions call are written out here once, following ECMAScript.

  A number that the server reads out of a string is an \<open>int option\<close>, where
  \<open>None\<close> is NaN. The model covers integer literals (optional sign, decimal digits);
  fractions, exponents, radix prefixes, the literal Infinity and the precision limit of
  doubles are outside it. White space is the ASCII white space (the CSV reader trims
  every cell before the server sees it).
\<close>

subsection \<open>Strings to numbers\<close>

definition isWhite :: "char \<Rightarrow> bool" where
  "isWhite c = (c \<in> set [CHR '' '', CHR 0x09, CHR 0x0A, CHR 0x0B, CHR 0x0C, CHR 0x0D])"

definition isDigit :: "char \<Rightarrow> bool" where
  "isDigit c = (c \<in> set ''0123456789'')"

definition digitVal :: "char \<Rightarrow> int" where
  "digitVal c = int (of_char c) - 48"

definition digitsVal :: "string \<Rightarrow> int" where
  "digitsVal ds = foldl (\<lambda>a c. 10 * a + digitVal c) 0 ds"

text \<open>An optional sign in front of the digits: \<open>(negative, rest)\<close>.\<close>

fun splitSign :: "string \<Rightarrow> bool \<times> string" where
  "splitSign [] = (False, [])"
| "splitSign (c # r) =
     (if c = CHR ''-'' then (True, r) else if c = CHR ''+'' then (False, r) else (False, c # r))"

text \<open>\<^verbatim>\<open>Number.parseInt(s, 10)\<close>: leading white space, a sign, the longest digit prefix.\<close>

definition parseInt10 :: "string \<Rightarrow> int option" where
  "parseInt10 s =
     (let (neg, u) = splitSign (dropWhile isWhite s);
          ds = takeWhile isDigit u
      in if ds = [] then None else Some ((if neg then - 1 else 1) * digitsVal ds))"

definition trimWhite :: "string \<Rightarrow> string" where
  "trimWhite s = rev (dropWhile isWhite (rev (dropWhile isWhite s)))"

text \<open>\<^verbatim>\<open>Number(s)\<close> on a string: the whole trimmed string must be a literal; blank is 0.\<close>

definition jsNumber :: "string \<Rightarrow> int option" where
  "jsNumber s =
     (let t = trimWhite s in
      if t = [] then Some 0
      else (let (neg, u) = splitSign t in
            if u \<noteq> [] \<and> list_all isDigit u
            then Some ((if neg then - 1 else 1) * digitsVal u) else None))"

text \<open>\<^verbatim>\<open>s.split(d)\<close> for a one-character separator; the result is never empty.\<close>

fun splitOn :: "char \<Rightarrow> string \<Rightarrow> string list" where
  "splitOn d [] = [[]]"
| "splitOn d (c # cs) =
     (if c = d then [] # splitOn d cs
      else (case splitOn d cs of [] \<Rightarrow> [[c]] | p # ps \<Rightarrow> (c # p) # ps))"

text \<open>\<^verbatim>\<open>String(n)\<close> for an integer, and \<^verbatim>\<open>padStart(2, '0')\<close>.\<close>

definition digitChar :: "int \<Rightarrow> char" where
  "digitChar d = char_of (nat (d + 48))"

function natString :: "int \<Rightarrow> string" where
  "natString n = (if n < 10 then [digitChar n] else natString (n div 10) @ [digitChar (n mod 10)])"
  by pat_completeness auto
termination
  by (relation "measure nat") auto

definition numberString :: "int option \<Rightarrow> string" where
  "numberString v =
     (case v of None \<Rightarrow> ''NaN''
      | Some n \<Rightarrow> if n < 0 then CHR ''-'' # natString (- n) else natString n)"

definition padStart2 :: "string \<Rightarrow> string" where
  "padStart2 s = replicate (2 - length s) CHR ''0'' @ s"

subsection \<open>Dates\<close>

text \<open>
  A valid \<^verbatim>\<open>Date\<close> is its time value, milliseconds since the epoch, an \<open>int\<close>;
  where a \<^verbatim>\<open>Date\<close> can be invalid it is an \<open>int option\<close>. The local time zone is
  the implementation's \<^verbatim>\<open>LocalTZA(t, isUTC)\<close>, a parameter \<open>tza\<close> of every
  function that reads local fields.
\<close>

type_synonym tzone = "int \<Rightarrow> bool \<Rightarrow> int"

definition msPerDay :: int where
  "msPerDay = 86400000"

definition Day :: "int \<Rightarrow> int" where
  "Day t = t div msPerDay"

definition WeekDay :: "int \<Rightarrow> int" where
  "WeekDay t = (Day t + 4) mod 7"

definition HourFromTime :: "int \<Rightarrow> int" where
  "HourFromTime t = (t div 3600000) mod 24"

definition MinFromTime :: "int \<Rightarrow> int" where
  "MinFromTime t = (t div 60000) mod 60"

definition SecFromTime :: "int \<Rightarrow> int" where
  "SecFromTime t = (t div 1000) mod 60"

definition LocalTime :: "tzone \<Rightarrow> int \<Rightarrow> int" where
  "LocalTime tza t = t + tza t True"

definition getDay :: "tzone \<Rightarrow> int \<Rightarrow> int" where
  "getDay tza t = WeekDay (LocalTime tza t)"

definition getHours :: "tzone \<Rightarrow> int \<Rightarrow> int" where
  "getHours tza t = HourFromTime (LocalTime tza t)"

definition getMinutes :: "tzone \<Rightarrow> int \<Rightarrow> int" where
  "getMinutes tza t = MinFromTime (LocalTime tza t)"

definition getSeconds :: "tzone \<Rightarrow> int \<Rightarrow> int" where
  "getSeconds tza t = SecFromTime (LocalTime tza t)"

definition DayFromYear :: "int \<Rightarrow> int" where
  "DayFromYear y =
     365 * (y - 1970) + (y - 1969) div 4 - (y - 1901) div 100 + (y - 1601) div 400"

definition InLeapYear :: "int \<Rightarrow> bool" where
  "InLeapYear y = (y mod 4 = 0 \<and> (y mod 100 \<noteq> 0 \<or> y mod 400 = 0))"

definition MonthStart :: "bool \<Rightarrow> int \<Rightarrow> int" where
  "MonthStart leap mn =
     [0, 31, 59, 90, 120, 151, 181, 212, 243, 273, 304, 334] ! nat mn
       + (if leap \<and> 2 \<le> mn then 1 else 0)"

definition MakeDay :: "int \<Rightarrow> int \<Rightarrow> int \<Rightarrow> int" where
  "MakeDay year month date =
     (let ym = year + month div 12; mn = month mod 12
      in DayFromYear ym + MonthStart (InLeapYear ym) mn + date - 1)"

definition TimeClip :: "int \<Rightarrow> int option" where
  "TimeClip t = (if \<bar>t\<bar> > 8640000000000000 then None else Some t)"

text \<open>\<^verbatim>\<open>new Date(y, m, d)\<close>: local midnight at the start of that day.\<close>

definition newDateYMD :: "tzone \<Rightarrow> int option \<Rightarrow> int option \<Rightarrow> int option \<Rightarrow> int option" where
  "newDateYMD tza y m d =
     (case (y, m, d) of
        (Some yy, Some mm, Some dd) \<Rightarrow>
          (let yr = (if 0 \<le> yy \<and> yy \<le> 99 then 1900 + yy else yy);
               t = MakeDay yr mm dd * msPerDay
           in TimeClip (t - tza t False))
      | _ \<Rightarrow> None)"

text \<open>Relational comparison of a valid date with a possibly invalid one (NaN compares false).\<close>

definition dateLt :: "int \<Rightarrow> int option \<Rightarrow> bool" where
  "dateLt a b = (case b of None \<Rightarrow> False | Some v \<Rightarrow> a < v)"

definition dateGt :: "int \<Rightarrow> int option \<Rightarrow> bool" where
  "dateGt a b = (case b of None \<Rightarrow> False | Some v \<Rightarrow> a > v)"

subsection \<open>Arrays and Maps\<close>

text \<open>
  \<^verbatim>\<open>Array.prototype.sort(cmp)\<close> is stable; for a comparator that is a consistent
  ordering every stable sort returns the same array, here the one insertion sort builds.
\<close>

fun insertBy :: "('a \<Rightarrow> 'a \<Rightarrow> int) \<Rightarrow> 'a \<Rightarrow> 'a list \<Rightarrow> 'a list" where
  "insertBy cmp x [] = [x]"
| "insertBy cmp x (y # ys) = (if cmp x y \<le> 0 then x # y # ys else y # insertBy cmp x ys)"

definition jsSort :: "('a \<Rightarrow> 'a \<Rightarrow> int) \<Rightarrow> 'a list \<Rightarrow> 'a list" where
  "jsSort cmp xs = foldr (insertBy cmp) xs []"

text \<open>
  A \<^verbatim>\<open>Map\<close> whose iteration order matters is an association list in insertion
  order: \<^verbatim>\<open>set\<close> on a key already present replaces the value where it stands.
\<close>

fun mapSet :: "'k \<Rightarrow> 'v \<Rightarrow> ('k \<times> 'v) list \<Rightarrow> ('k \<times> 'v) list" where
  "mapSet k v [] = [(k, v)]"
| "mapSet k v ((k', v') # kvs) =
     (if k' = k then (k, v) # kvs else (k', v') # mapSet k v kvs)"

definition mapGet :: "('k \<times> 'v) list \<Rightarrow> 'k \<Rightarrow> 'v option" where
  "mapGet m k = map_of m k"

definition mapHas :: "('k \<times> 'v) list \<Rightarrow> 'k \<Rightarrow> bool" where
  "mapHas m k = (map_of m k \<noteq> None)"

definition mapValues :: "('k \<times> 'v) list \<Rightarrow> 'v list" where
  "mapValues m = map snd m"

text \<open>A falsy string value: \<^verbatim>\<open>undefined\<close> or the empty string.\<close>

definition falsyStr :: "string option \<Rightarrow> bool" where
  "falsyStr v = (case v of None \<Rightarrow> True | Some s \<Rightarrow> s = [])"

section \<open>Data model\<close>

text \<open>
  A row of a delimited table, as the CSV reader returns it: column name to cell. A column
  the table does not have reads as \<^verbatim>\<open>undefined\<close> (\<open>None\<close>); a blank cell is
  the empty string.

  The objects of the server are records. Where two kinds of object use the same property
  name (\<^verbatim>\<open>route_id\<close> of a route and of a trip, \<^verbatim>\<open>tripId\<close> of a schedule entry
  and of an arrival) the fields carry a prefix; a property that may be
  \<^verbatim>\<open>undefined\<close> or \<^verbatim>\<open>null\<close> is an option. Coordinates are only stored and
  passed on, as reals.
\<close>

type_synonym csv_row = "string \<rightharpoonup> string"

record route =
  r_route_id :: "string option"
  r_route_short_name :: "string option"
  r_route_long_name :: "string option"
  r_route_desc :: "string option"
  r_route_type :: "int option"
  r_route_color :: "string option"

record stop =
  s_stop_id :: "string option"
  s_stop_name :: "string option"
  s_stop_lat :: "real option"
  s_stop_lon :: "real option"

record trip =
  t_route_id :: "string option"
  t_service_id :: "string option"
  t_trip_id :: "string option"
  t_trip_headsign :: "string option"
  t_direction_id :: "int option"
  t_shape_id :: "string option"

record shape_point =
  shape_pt_lat :: real
  shape_pt_lon :: real
  shape_pt_sequence :: int

record stop_entry =
  e_tripId :: string
  e_arrivalTime :: string
  e_arrivalLabel :: string
  e_arrivalSeconds :: int
  e_stopSequence :: int

record service =
  monday :: bool
  tuesday :: bool
  wednesday :: bool
  thursday :: bool
  friday :: bool
  saturday :: bool
  sunday :: bool
  startDate :: "int option"
  endDate :: "int option"

record static_data =
  routes :: "route list"
  stops :: "stop list"
  staticTrips :: "trip list"
  shapesById :: "string \<rightharpoonup> shape_point list"
  stopSchedulesByStopId :: "string \<rightharpoonup> stop_entry list"
  routesById :: "string \<rightharpoonup> route"
  staticTripsById :: "string \<rightharpoonup> trip"
  calendarByServiceId :: "string \<rightharpoonup> service"

datatype data_source = Scheduled | Realtime

record arrival =
  tripId :: string
  arrivalTime :: string
  arrivalLabel :: "string option"
  stopSequence :: "int option"
  routeId :: "string option"
  routeShortName :: "string option"
  routeLongName :: "string option"
  headsign :: "string option"
  dataSource :: data_source

section \<open>Static index builder (loadStaticData)\<close>

text \<open>
  \<^verbatim>\<open>parseFloatSafe\<close> calls \<^verbatim>\<open>Number.parseFloat\<close>; coordinates are only stored
  and returned, so the reading of a decimal is a parameter \<open>pf\<close>: the finite value
  read from the text, \<open>None\<close> when the result is NaN or infinite.
\<close>

definition parseFloatSafe :: "(string \<Rightarrow> real option) \<Rightarrow> string option \<Rightarrow> real option" where
  "parseFloatSafe pf v = (case v of None \<Rightarrow> None | Some s \<Rightarrow> pf s)"

definition parseIntSafe :: "string option \<Rightarrow> int option" where
  "parseIntSafe v =
     (case v of None \<Rightarrow> None
      | Some s \<Rightarrow> if s = [] then None else parseInt10 s)"

definition timeToSeconds :: "string option \<Rightarrow> int option" where
  "timeToSeconds v =
     (if falsyStr v then None
      else (let parts = map parseInt10 (splitOn CHR '':'' (the v)) in
            if length parts < 2 \<or> list_ex (\<lambda>p. p = None) parts then None
            else (case parts of
                    h # m # s # _ \<Rightarrow> Some (the h * 3600 + the m * 60 + the s)
                  | h # m # [] \<Rightarrow> Some (the h * 3600 + the m * 60 + 0)
                  | _ \<Rightarrow> None)))"

definition formatScheduleLabel :: "string option \<Rightarrow> string" where
  "formatScheduleLabel v =
     (if falsyStr v then []
      else (let parts = splitOn CHR '':'' (the v);
                hourNumber = map_option (\<lambda>h. h - 24 * (if h < 0 then - ((- h) div 24) else h div 24))
                               (parseInt10 (hd parts));
                minutes = (case parts of _ # m # _ \<Rightarrow> m | _ \<Rightarrow> ''00'')
            in padStart2 (numberString hourNumber) @ '':'' @ minutes))"

definition parseYyyyMmDd :: "tzone \<Rightarrow> string \<Rightarrow> int option" where
  "parseYyyyMmDd tza str =
     (let y = jsNumber (take 4 str);
          m = map_option (\<lambda>v. v - 1) (jsNumber (take 2 (drop 4 str)));
          d = jsNumber (take 2 (drop 6 str))
      in newDateYMD tza y m d)"

definition mkRoute :: "csv_row \<Rightarrow> route" where
  "mkRoute row =
     \<lparr> r_route_id = row ''route_id'',
       r_route_short_name = row ''route_short_name'',
       r_route_long_name = row ''route_long_name'',
       r_route_desc = row ''route_desc'',
       r_route_type = parseIntSafe (row ''route_type''),
       r_route_color = row ''route_color'' \<rparr>"

definition mkStop :: "(string \<Rightarrow> real option) \<Rightarrow> csv_row \<Rightarrow> stop" where
  "mkStop pf row =
     \<lparr> s_stop_id = row ''stop_id'',
       s_stop_name = row ''stop_name'',
       s_stop_lat = parseFloatSafe pf (row ''stop_lat''),
       s_stop_lon = parseFloatSafe pf (row ''stop_lon'') \<rparr>"

definition mkTrip :: "csv_row \<Rightarrow> trip" where
  "mkTrip row =
     \<lparr> t_route_id = row ''route_id'',
       t_service_id = row ''service_id'',
       t_trip_id = row ''trip_id'',
       t_trip_headsign = row ''trip_headsign'',
       t_direction_id = parseIntSafe (row ''direction_id''),
       t_shape_id = row ''shape_id'' \<rparr>"

text \<open>
  \<^verbatim>\<open>new Map(list.map(x => [key(x), x]))\<close>: a later element replaces an earlier one
  with the same key. Every lookup the server makes is by a string, so an element whose
  key is \<^verbatim>\<open>undefined\<close> is never found and is left out.
\<close>

definition indexBy :: "('a \<Rightarrow> string option) \<Rightarrow> 'a list \<Rightarrow> (string \<rightharpoonup> 'a)" where
  "indexBy key xs =
     fold (\<lambda>x m. case key x of None \<Rightarrow> m | Some k \<Rightarrow> m(k \<mapsto> x)) xs Map.empty"

text \<open>One step of \<^verbatim>\<open>shapesRaw.forEach\<close>.\<close>

definition shapeStep ::
  "(string \<Rightarrow> real option) \<Rightarrow> csv_row \<Rightarrow> (string \<rightharpoonup> shape_point list) \<Rightarrow> (string \<rightharpoonup> shape_point list)" where
  "shapeStep pf shape m =
     (if falsyStr (shape ''shape_id'') then m
      else (case (parseFloatSafe pf (shape ''shape_pt_lat''),
                  parseFloatSafe pf (shape ''shape_pt_lon'')) of
              (Some latitude, Some longitude) \<Rightarrow>
                (let sequence = (case parseIntSafe (shape ''shape_pt_sequence'') of
                                   None \<Rightarrow> 0 | Some n \<Rightarrow> n);
                     sid = the (shape ''shape_id'');
                     points = (case m sid of None \<Rightarrow> [] | Some ps \<Rightarrow> ps)
                 in m(sid \<mapsto> points @
                      [\<lparr> shape_pt_lat = latitude, shape_pt_lon = longitude,
                         shape_pt_sequence = sequence \<rparr>]))
            | _ \<Rightarrow> m))"

definition shapeCompare :: "shape_point \<Rightarrow> shape_point \<Rightarrow> int" where
  "shapeCompare a b = shape_pt_sequence a - shape_pt_sequence b"

definition buildShapes :: "(string \<Rightarrow> real option) \<Rightarrow> csv_row list \<Rightarrow> (string \<rightharpoonup> shape_point list)" where
  "buildShapes pf shapesRaw =
     (\<lambda>sid. map_option (jsSort shapeCompare) (fold (shapeStep pf) shapesRaw Map.empty sid))"

text \<open>One step of \<^verbatim>\<open>stopTimesRaw.forEach\<close>.\<close>

definition stopTimeStep ::
  "csv_row \<Rightarrow> (string \<rightharpoonup> stop_entry list) \<Rightarrow> (string \<rightharpoonup> stop_entry list)" where
  "stopTimeStep stopTime m =
     (if falsyStr (stopTime ''stop_id'') \<or> falsyStr (stopTime ''trip_id'') then m
      else (let arrTime = (if falsyStr (stopTime ''arrival_time'')
                           then stopTime ''departure_time'' else stopTime ''arrival_time'')
            in if falsyStr arrTime then m
               else (case timeToSeconds arrTime of
                       None \<Rightarrow> m
                     | Some arrSeconds \<Rightarrow>
                         (let stopSeq = (case parseIntSafe (stopTime ''stop_sequence'') of
                                           None \<Rightarrow> 0 | Some n \<Rightarrow> n);
                              entry = \<lparr> e_tripId = the (stopTime ''trip_id''),
                                        e_arrivalTime = the arrTime,
                                        e_arrivalLabel = formatScheduleLabel arrTime,
                                        e_arrivalSeconds = arrSeconds,
                                        e_stopSequence = stopSeq \<rparr>;
                              sid = the (stopTime ''stop_id'');
                              lst = (case m sid of None \<Rightarrow> [] | Some l \<Rightarrow> l)
                          in m(sid \<mapsto> lst @ [entry])))))"

definition entryCompare :: "stop_entry \<Rightarrow> stop_entry \<Rightarrow> int" where
  "entryCompare a b = e_arrivalSeconds a - e_arrivalSeconds b"

definition buildStopSchedules :: "csv_row list \<Rightarrow> (string \<rightharpoonup> stop_entry list)" where
  "buildStopSchedules stopTimesRaw =
     (\<lambda>sid. map_option (jsSort entryCompare) (fold stopTimeStep stopTimesRaw Map.empty sid))"

text \<open>
  One step of \<^verbatim>\<open>calendarRaw.forEach\<close>. \<^verbatim>\<open>parseYyyyMmDd\<close> calls \<^verbatim>\<open>slice\<close> on
  the cell, which throws a TypeError when the column is missing; the load then fails.
\<close>

datatype load_error = TypeError

definition calendarStep ::
  "tzone \<Rightarrow> csv_row \<Rightarrow> (string \<rightharpoonup> service) \<Rightarrow> load_error + (string \<rightharpoonup> service)" where
  "calendarStep tza row m =
     (if falsyStr (row ''service_id'') then Inr m
      else (case (row ''start_date'', row ''end_date'') of
              (Some sd, Some ed) \<Rightarrow>
                Inr (m(the (row ''service_id'') \<mapsto>
                  \<lparr> monday = (row ''monday'' = Some ''1''),
                    tuesday = (row ''tuesday'' = Some ''1''),
                    wednesday = (row ''wednesday'' = Some ''1''),
                    thursday = (row ''thursday'' = Some ''1''),
                    friday = (row ''friday'' = Some ''1''),
                    saturday = (row ''saturday'' = Some ''1''),
                    sunday = (row ''sunday'' = Some ''1''),
                    startDate = parseYyyyMmDd tza sd,
                    endDate = parseYyyyMmDd tza ed \<rparr>))
            | _ \<Rightarrow> Inl TypeError))"

fun buildCalendar ::
  "tzone \<Rightarrow> csv_row list \<Rightarrow> (string \<rightharpoonup> service) \<Rightarrow> load_error + (string \<rightharpoonup> service)" where
  "buildCalendar tza [] m = Inr m"
| "buildCalendar tza (row # rows) m =
     (case calendarStep tza row m of Inl e \<Rightarrow> Inl e | Inr m' \<Rightarrow> buildCalendar tza rows m')"

text \<open>The six tables, already read from the archive and split into rows.\<close>

record tables =
  routesRaw :: "csv_row list"
  stopsRaw :: "csv_row list"
  tripsRaw :: "csv_row list"
  shapesRaw :: "csv_row list"
  stopTimesRaw :: "csv_row list"
  calendarRaw :: "csv_row list"

definition loadStaticData ::
  "tzone \<Rightarrow> (string \<Rightarrow> real option) \<Rightarrow> tables \<Rightarrow> load_error + static_data" where
  "loadStaticData tza pf tb =
     (let rs = map mkRoute (routesRaw tb);
          ss = map (mkStop pf) (stopsRaw tb);
          ts = map mkTrip (tripsRaw tb)
      in case buildCalendar tza (calendarRaw tb) Map.empty of
           Inl e \<Rightarrow> Inl e
         | Inr cal \<Rightarrow>
             Inr \<lparr> routes = rs, stops = ss, staticTrips = ts,
                   shapesById = buildShapes pf (shapesRaw tb),
                   stopSchedulesByStopId = buildStopSchedules (stopTimesRaw tb),
                   routesById = indexBy r_route_id rs,
                   staticTripsById = indexBy t_trip_id ts,
                   calendarByServiceId = cal \<rparr>)"

section \<open>Calendar test and scheduled arrivals\<close>

definition weekdayKeys :: "string list" where
  "weekdayKeys =
     [''sunday'', ''monday'', ''tuesday'', ''wednesday'', ''thursday'', ''friday'', ''saturday'']"

text \<open>\<^verbatim>\<open>service[dayKey]\<close> for the keys of \<open>weekdayKeys\<close>.\<close>

definition serviceFlag :: "service \<Rightarrow> string \<Rightarrow> bool" where
  "serviceFlag s k =
     (if k = ''sunday'' then sunday s
      else if k = ''monday'' then monday s
      else if k = ''tuesday'' then tuesday s
      else if k = ''wednesday'' then wednesday s
      else if k = ''thursday'' then thursday s
      else if k = ''friday'' then friday s
      else if k = ''saturday'' then saturday s
      else False)"

text \<open>
  \<^verbatim>\<open>isServiceRunningToday(serviceId, today = new Date())\<close>. The second argument is
  explicit here; a caller that leaves it out passes the current instant.
\<close>

definition isServiceRunningToday ::
  "tzone \<Rightarrow> (string \<rightharpoonup> service) \<Rightarrow> string option \<Rightarrow> int \<Rightarrow> bool" where
  "isServiceRunningToday tza cal serviceId today =
     (case (case serviceId of None \<Rightarrow> None | Some k \<Rightarrow> cal k) of
        None \<Rightarrow> False
      | Some svc \<Rightarrow>
          (let dayKey = weekdayKeys ! nat (getDay tza today) in
           if \<not> serviceFlag svc dayKey then False
           else if dateLt today (startDate svc) then False
           else if dateGt today (endDate svc) then False
           else True))"

text \<open>
  The \<^verbatim>\<open>timeToSeconds\<close> local to the arrival queries: \<^verbatim>\<open>split(':').map(Number)\<close>,
  three parts read; a missing part is \<^verbatim>\<open>undefined\<close> and makes the sum NaN.
\<close>

definition timeToSecondsLocal :: "string \<Rightarrow> int option" where
  "timeToSecondsLocal t =
     (case map jsNumber (splitOn CHR '':'' t) of
        Some h # Some m # Some s # _ \<Rightarrow> Some (h * 3600 + m * 60 + s)
      | _ \<Rightarrow> None)"

text \<open>\<^verbatim>\<open>x >= n\<close> where \<open>x\<close> may be NaN.\<close>

definition numGe :: "int option \<Rightarrow> int \<Rightarrow> bool" where
  "numGe x n = (case x of None \<Rightarrow> False | Some v \<Rightarrow> v \<ge> n)"

definition secondsSinceMidnight :: "tzone \<Rightarrow> int \<Rightarrow> int" where
  "secondsSinceMidnight tza t = getHours tza t * 3600 + getMinutes tza t * 60 + getSeconds tza t"

definition scheduledArrival :: "static_data \<Rightarrow> stop_entry \<Rightarrow> arrival" where
  "scheduledArrival sd entry =
     (let trp = staticTripsById sd (e_tripId entry);
          rte = (case trp of None \<Rightarrow> None
                 | Some t \<Rightarrow> if falsyStr (t_route_id t) then None
                             else routesById sd (the (t_route_id t)))
      in \<lparr> tripId = e_tripId entry,
           arrivalTime = e_arrivalTime entry,
           arrivalLabel = Some (e_arrivalLabel entry),
           stopSequence = Some (e_stopSequence entry),
           routeId = (case trp of None \<Rightarrow> None | Some t \<Rightarrow> t_route_id t),
           routeShortName = (case rte of None \<Rightarrow> None | Some r \<Rightarrow> r_route_short_name r),
           routeLongName = (case rte of None \<Rightarrow> None | Some r \<Rightarrow> r_route_long_name r),
           headsign = (case trp of None \<Rightarrow> None | Some t \<Rightarrow> t_trip_headsign t),
           dataSource = Scheduled \<rparr>)"

text \<open>The calendar filter of both schedule queries; \<open>now\<close> is the clock when it runs.\<close>

definition tripRunning :: "tzone \<Rightarrow> static_data \<Rightarrow> int \<Rightarrow> stop_entry \<Rightarrow> bool" where
  "tripRunning tza sd now entry =
     (case staticTripsById sd (e_tripId entry) of
        None \<Rightarrow> False
      | Some t \<Rightarrow> isServiceRunningToday tza (calendarByServiceId sd) (t_service_id t) now)"

text \<open>
  \<^verbatim>\<open>getScheduledArrivalsAtStop(stopId, time)\<close>. It reads the clock through the default
  argument of \<^verbatim>\<open>isServiceRunningToday\<close>: \<open>now\<close> is that reading.
\<close>

definition getScheduledArrivalsAtStop ::
  "tzone \<Rightarrow> static_data \<Rightarrow> int \<Rightarrow> string \<Rightarrow> int \<Rightarrow> arrival list" where
  "getScheduledArrivalsAtStop tza sd now stopId time =
     (let schedule = (case stopSchedulesByStopId sd stopId of None \<Rightarrow> [] | Some l \<Rightarrow> l);
          ssm = secondsSinceMidnight tza time
      in map (scheduledArrival sd)
           (filter (tripRunning tza sd now)
              (filter (\<lambda>entry. numGe (timeToSecondsLocal (e_arrivalTime entry)) ssm) schedule)))"

section \<open>Realtime feed decoder\<close>

text \<open>
  The decoded feed message, with the optional fields the server tests. Timestamps are
  seconds since the epoch, within the range of a valid \<^verbatim>\<open>Date\<close>.
\<close>

record trip_descriptor =
  td_tripId :: "string option"
  td_routeId :: "string option"
  td_directionId :: "int option"
  td_scheduleRelationship :: "int option"

record vehicle_descriptor =
  vd_id :: "string option"
  vd_label :: "string option"
  vd_licensePlate :: "string option"

record stop_time_event =
  ste_time :: "int option"

record stop_time_update =
  stu_stopId :: "string option"
  stu_arrival :: "stop_time_event option"
  stu_departure :: "stop_time_event option"
  stu_stopSequence :: "int option"

record trip_update =
  tu_trip :: "trip_descriptor option"
  tu_vehicle :: "vehicle_descriptor option"
  tu_stopTimeUpdate :: "stop_time_update list option"

record position =
  latitude :: "real option"
  longitude :: "real option"
  bearing :: "real option"
  speed :: "real option"

record vehicle_position =
  vp_trip :: "trip_descriptor option"
  vp_position :: "position option"
  vp_vehicle :: "vehicle_descriptor option"
  vp_timestamp :: "int option"
  vp_currentStopSequence :: "int option"
  vp_stopId :: "string option"
  vp_congestionLevel :: "int option"

record feed_entity =
  fe_id :: string
  fe_tripUpdate :: "trip_update option"
  fe_vehicle :: "vehicle_position option"

text \<open>What reading a feed can throw: the download failed, or the bytes did not decode.\<close>

datatype feed_error = FetchFailed | DecodeFailed

type_synonym feed = "feed_error + feed_entity list"

text \<open>A normalised vehicle; \<open>v_timestamp\<close> is the instant whose ISO text the server sends.\<close>

record vehicle =
  v_entityId :: string
  v_vehicleId :: string
  v_tripId :: "string option"
  v_routeId :: "string option"
  v_directionId :: "int option"
  v_position :: position
  v_timestamp :: "int option"
  v_currentStopSequence :: "int option"
  v_stopId :: "string option"
  v_congestionLevel :: "int option"
  v_scheduleRelationship :: "int option"
  v_label :: "string option"
  v_licensePlate :: "string option"

text \<open>\<^verbatim>\<open>a ?? b\<close>\<close>

definition orElse :: "'a option \<Rightarrow> 'a option \<Rightarrow> 'a option" where
  "orElse a b = (case a of None \<Rightarrow> b | Some v \<Rightarrow> Some v)"

definition normalizeVehicle :: "feed_entity \<Rightarrow> vehicle" where
  "normalizeVehicle entity =
     (let veh = the (fe_vehicle entity);
          pos = (case vp_position veh of None \<Rightarrow>
                   \<lparr> latitude = None, longitude = None, bearing = None, speed = None \<rparr>
                 | Some p \<Rightarrow> p);
          trp = (case vp_trip veh of None \<Rightarrow>
                   \<lparr> td_tripId = None, td_routeId = None, td_directionId = None,
                     td_scheduleRelationship = None \<rparr>
                 | Some t \<Rightarrow> t);
          descriptor = (case vp_vehicle veh of None \<Rightarrow>
                   \<lparr> vd_id = None, vd_label = None, vd_licensePlate = None \<rparr>
                 | Some d \<Rightarrow> d)
      in \<lparr> v_entityId = fe_id entity,
           v_vehicleId = (case orElse (vd_id descriptor) (vd_label descriptor) of
                            None \<Rightarrow> fe_id entity | Some i \<Rightarrow> i),
           v_tripId = td_tripId trp,
           v_routeId = td_routeId trp,
           v_directionId = td_directionId trp,
           v_position = \<lparr> latitude = latitude pos, longitude = longitude pos,
                          bearing = bearing pos, speed = speed pos \<rparr>,
           v_timestamp = (case vp_timestamp veh of None \<Rightarrow> None
                          | Some ts \<Rightarrow> if ts = 0 then None else Some (ts * 1000)),
           v_currentStopSequence = vp_currentStopSequence veh,
           v_stopId = vp_stopId veh,
           v_congestionLevel = vp_congestionLevel veh,
           v_scheduleRelationship = td_scheduleRelationship trp,
           v_label = vd_label descriptor,
           v_licensePlate = vd_licensePlate descriptor \<rparr>)"

definition loadVehiclePositions :: "feed \<Rightarrow> feed_error + vehicle list" where
  "loadVehiclePositions fd =
     (case fd of
        Inl e \<Rightarrow> Inl e
      | Inr entities \<Rightarrow>
          Inr (map normalizeVehicle (filter (\<lambda>entity. fe_vehicle entity \<noteq> None) entities)))"

section \<open>Realtime arrivals and the merge\<close>

text \<open>
  \<^verbatim>\<open>String.prototype.localeCompare\<close> and the \<^verbatim>\<open>toLocaleTimeString\<close> of
  \<^verbatim>\<open>formatHHMM\<close> belong to the runtime's locale data: they are the parameters \<open>lc\<close>
  and \<open>fmt\<close>.
\<close>

type_synonym collator = "string \<Rightarrow> string \<Rightarrow> int"

text \<open>
  \<^verbatim>\<open>formatHHMM\<close> is only called on the \<^verbatim>\<open>Date\<close> of a feed timestamp, which is
  valid, so its \<^verbatim>\<open>null\<close> branch is not reached.
\<close>

definition formatHHMM :: "(int \<Rightarrow> string) \<Rightarrow> int \<Rightarrow> string" where
  "formatHHMM fmt date = fmt date"

definition arrivalCompare :: "collator \<Rightarrow> arrival \<Rightarrow> arrival \<Rightarrow> int" where
  "arrivalCompare lc a b = lc (arrivalTime a) (arrivalTime b)"

text \<open>The body of the inner \<^verbatim>\<open>stopTimeUpdate.forEach\<close> of \<^verbatim>\<open>getBusesArrivingAtStop\<close>.\<close>

definition stopTimeUpdateStep ::
  "collator \<Rightarrow> (int \<Rightarrow> string) \<Rightarrow> int \<Rightarrow> string \<Rightarrow> string \<Rightarrow> trip_update \<Rightarrow> trip option \<Rightarrow>
     route option \<Rightarrow> stop_time_update \<Rightarrow> (string \<times> arrival) list \<Rightarrow> (string \<times> arrival) list" where
  "stopTimeUpdateStep lc fmt now stopId trId tripUpd tripInfo routeInfo stopTime m =
     (if stu_stopId stopTime \<noteq> Some stopId then m
      else (let arrivalTimestamp =
                  orElse (case stu_arrival stopTime of None \<Rightarrow> None | Some a \<Rightarrow> ste_time a)
                         (case stu_departure stopTime of None \<Rightarrow> None | Some d \<Rightarrow> ste_time d)
            in if arrivalTimestamp = None \<or> arrivalTimestamp = Some 0 then m
               else (let arrivalDate = the arrivalTimestamp * 1000;
                         twoHoursLater = now + 2 * 60 * 60 * 1000
                     in if arrivalDate < now \<or> arrivalDate > twoHoursLater then m
                        else (let arr =
                                    \<lparr> tripId = trId,
                                      arrivalTime = formatHHMM fmt arrivalDate,
                                      arrivalLabel = (case tu_vehicle tripUpd of None \<Rightarrow> None
                                                      | Some v \<Rightarrow> vd_label v),
                                      stopSequence = stu_stopSequence stopTime,
                                      routeId = (case tripInfo of None \<Rightarrow> None
                                                 | Some t \<Rightarrow> t_route_id t),
                                      routeShortName = (case routeInfo of None \<Rightarrow> None
                                                        | Some r \<Rightarrow> r_route_short_name r),
                                      routeLongName = (case routeInfo of None \<Rightarrow> None
                                                       | Some r \<Rightarrow> r_route_long_name r),
                                      headsign = (case tripInfo of None \<Rightarrow> None
                                                  | Some t \<Rightarrow> t_trip_headsign t),
                                      dataSource = Realtime \<rparr>;
                                  existing = mapGet m trId
                              in if existing = None
                                    \<or> lc (arrivalTime arr) (arrivalTime (the existing)) < 0
                                 then mapSet trId arr m else m))))"

text \<open>The body of the outer \<^verbatim>\<open>feed.entity.forEach\<close>.\<close>

definition entityStep ::
  "collator \<Rightarrow> (int \<Rightarrow> string) \<Rightarrow> static_data \<Rightarrow> int \<Rightarrow> string \<Rightarrow> feed_entity \<Rightarrow>
     (string \<times> arrival) list \<Rightarrow> (string \<times> arrival) list" where
  "entityStep lc fmt sd now stopId entity m =
     (case fe_tripUpdate entity of
        None \<Rightarrow> m
      | Some tripUpd \<Rightarrow>
          (let trIdOpt = (case tu_trip tripUpd of None \<Rightarrow> None | Some t \<Rightarrow> td_tripId t) in
           if falsyStr trIdOpt then m
           else (let trId = the trIdOpt;
                     tripInfo = staticTripsById sd trId;
                     routeInfo = (case tripInfo of None \<Rightarrow> None
                                  | Some t \<Rightarrow> if falsyStr (t_route_id t) then None
                                              else routesById sd (the (t_route_id t)))
                 in (case tu_stopTimeUpdate tripUpd of
                       None \<Rightarrow> m
                     | Some stus \<Rightarrow>
                         fold (stopTimeUpdateStep lc fmt now stopId trId tripUpd tripInfo routeInfo)
                           stus m))))"

definition realtimeArrivalsByTrip ::
  "collator \<Rightarrow> (int \<Rightarrow> string) \<Rightarrow> static_data \<Rightarrow> int \<Rightarrow> string \<Rightarrow> feed_entity list \<Rightarrow>
     (string \<times> arrival) list" where
  "realtimeArrivalsByTrip lc fmt sd now stopId entities =
     fold (entityStep lc fmt sd now stopId) entities []"

definition getBusesArrivingAtStop ::
  "collator \<Rightarrow> (int \<Rightarrow> string) \<Rightarrow> static_data \<Rightarrow> int \<Rightarrow> feed \<Rightarrow> string \<Rightarrow>
     feed_error + arrival list" where
  "getBusesArrivingAtStop lc fmt sd now fd stopId =
     (case fd of
        Inl e \<Rightarrow> Inl e
      | Inr entities \<Rightarrow>
          Inr (take 20 (jsSort (arrivalCompare lc)
                 (mapValues (realtimeArrivalsByTrip lc fmt sd now stopId entities)))))"

definition mergeByTrip :: "arrival list \<Rightarrow> arrival list \<Rightarrow> (string \<times> arrival) list" where
  "mergeByTrip realtime scheduled =
     fold (\<lambda>s m. if \<not> mapHas m (tripId s) then mapSet (tripId s) s m else m) scheduled
       (fold (\<lambda>r m. mapSet (tripId r) r m) realtime [])"

definition mergeArrivals :: "collator \<Rightarrow> arrival list \<Rightarrow> arrival list \<Rightarrow> arrival list" where
  "mergeArrivals lc realtime scheduled =
     take 20 (jsSort (arrivalCompare lc) (mapValues (mergeByTrip realtime scheduled)))"

section \<open>Request handlers\<close>

text \<open>
  A handler's answer: the JSON body with status 200, the 400 with its message, or the 500
  the error middleware sends for anything a handler passes to \<^verbatim>\<open>next\<close>. A handler
  that may read a realtime feed also returns how many times it did. Within one request
  the readings of the clock are one instant \<open>now\<close>.
\<close>

datatype 'a response = Json 'a | BadRequest string | InternalServerError

text \<open>\<open>dp\<close> is \<^verbatim>\<open>new Date(text)\<close>: the time value read, \<open>None\<close> when it is invalid.\<close>

definition parseRequestTime :: "(string \<Rightarrow> int option) \<Rightarrow> int \<Rightarrow> string option \<Rightarrow> int" where
  "parseRequestTime dp now timeParam =
     (if falsyStr timeParam then now
      else (case dp (the timeParam) of None \<Rightarrow> now | Some t \<Rightarrow> t))"

definition USE_REALTIME_WINDOW_MS :: int where
  "USE_REALTIME_WINDOW_MS = 2 * 60 * 60 * 1000"

definition stopArrivalsHandler ::
  "tzone \<Rightarrow> collator \<Rightarrow> (int \<Rightarrow> string) \<Rightarrow> (string \<Rightarrow> int option) \<Rightarrow> static_data \<Rightarrow> int \<Rightarrow> feed \<Rightarrow>
     string option \<Rightarrow> string option \<Rightarrow> arrival list response \<times> nat" where
  "stopArrivalsHandler tza lc fmt dp sd now tripUpdatesFeed stopIdParam timeParam =
     (if falsyStr stopIdParam then (BadRequest ''stopId query parameter is required.'', 0)
      else (let stopId = the stopIdParam;
                requestTime = parseRequestTime dp now timeParam;
                canUseRealtime = (\<bar>requestTime - now\<bar> \<le> USE_REALTIME_WINDOW_MS)
            in if canUseRealtime
               then (case getBusesArrivingAtStop lc fmt sd now tripUpdatesFeed stopId of
                       Inl e \<Rightarrow> (InternalServerError, 1)
                     | Inr realtimeArrivals \<Rightarrow>
                         (Json (mergeArrivals lc realtimeArrivals
                                  (getScheduledArrivalsAtStop tza sd now stopId requestTime)), 1))
               else (Json (mergeArrivals lc []
                             (getScheduledArrivalsAtStop tza sd now stopId requestTime)), 0)))"



text \<open>\<^verbatim>\<open>GET /api/static/shape\<close>\<close>

definition shapeHandler :: "static_data \<Rightarrow> string option \<Rightarrow> shape_point list response" where
  "shapeHandler sd shapeIdParam =
     (if falsyStr shapeIdParam then BadRequest ''shapeId query parameter is required.''
      else Json (case shapesById sd (the shapeIdParam) of None \<Rightarrow> [] | Some ps \<Rightarrow> ps))"

text \<open>\<^verbatim>\<open>GET /api/realtime/vehicles\<close> and \<^verbatim>\<open>GET /api/realtime/stop-arrivals\<close>\<close>

definition vehiclesHandler :: "feed \<Rightarrow> vehicle list response" where
  "vehiclesHandler vehicleFeed =
     (case loadVehiclePositions vehicleFeed of
        Inl e \<Rightarrow> InternalServerError
      | Inr vehicles \<Rightarrow> Json vehicles)"

definition realtimeStopArrivalsHandler ::
  "collator \<Rightarrow> (int \<Rightarrow> string) \<Rightarrow> static_data \<Rightarrow> int \<Rightarrow> feed \<Rightarrow> string option \<Rightarrow>
     arrival list response" where
  "realtimeStopArrivalsHandler lc fmt sd now tripUpdatesFeed stopIdParam =
     (if falsyStr stopIdParam then BadRequest ''stopId query parameter is required.''
      else (case getBusesArrivingAtStop lc fmt sd now tripUpdatesFeed (the stopIdParam) of
              Inl e \<Rightarrow> InternalServerError
            | Inr arrivals \<Rightarrow> Json arrivals))"

section \<open>Concrete data for the examples\<close>

text \<open>
  A collator for concrete runs: comparison by character code. On time labels of digits
  and colons of equal length it orders as numeric time does.
\<close>

fun codeUnitCompare :: "string \<Rightarrow> string \<Rightarrow> int" where
  "codeUnitCompare [] [] = 0"
| "codeUnitCompare [] (y # ys) = - 1"
| "codeUnitCompare (x # xs) [] = 1"
| "codeUnitCompare (x # xs) (y # ys) =
     (if (of_char x :: nat) < of_char y then - 1
      else if (of_char y :: nat) < of_char x then 1
      else codeUnitCompare xs ys)"

definition exampleArrival :: "string \<Rightarrow> string \<Rightarrow> data_source \<Rightarrow> arrival" where
  "exampleArrival t l src =
     \<lparr> tripId = t, arrivalTime = l, arrivalLabel = None, stopSequence = None, routeId = None,
       routeShortName = None, routeLongName = None, headsign = None, dataSource = src \<rparr>"

text \<open>Twenty-one realtime arrivals T0 .. T20 at 10:00 .. 10:20, and the schedule's T20.\<close>

definition exampleRealtime21 :: "arrival list" where
  "exampleRealtime21 =
     map (\<lambda>i. exampleArrival (''T'' @ natString (int i))
                 (''10:'' @ padStart2 (natString (int i))) Realtime)
       [0..<21]"

definition exampleScheduled21 :: "arrival list" where
  "exampleScheduled21 = [exampleArrival ''T20'' ''10:20:00'' Scheduled]"

text \<open>A process whose local time is UTC, and a reader of plain integers as coordinates.\<close>

definition utc :: tzone where
  "utc t isUTC = 0"

definition plainFloat :: "string \<Rightarrow> real option" where
  "plainFloat s = map_option real_of_int (parseInt10 s)"

text \<open>
  An archive with one route, one stop and one trip T1 of service WD, which runs on
  Mondays from 2024-01-01 to 2024-12-30 (a Monday). T1 is a loop: it calls at S1 at
  08:00:00 and again at 09:00:00.
\<close>

definition exampleTables :: tables where
  "exampleTables =
     \<lparr> routesRaw = [map_of [(''route_id'', ''1''), (''route_short_name'', ''1''),
                             (''route_long_name'', ''Spring Garden''), (''route_type'', ''3'')]],
       stopsRaw = [map_of [(''stop_id'', ''S1''), (''stop_name'', ''Terminal'')]],
       tripsRaw = [map_of [(''trip_id'', ''T1''), (''route_id'', ''1''), (''service_id'', ''WD'')]],
       shapesRaw = [],
       stopTimesRaw =
         [map_of [(''trip_id'', ''T1''), (''stop_id'', ''S1''), (''arrival_time'', ''08:00:00''),
                  (''stop_sequence'', ''1'')],
          map_of [(''trip_id'', ''T1''), (''stop_id'', ''S1''), (''arrival_time'', ''09:00:00''),
                  (''stop_sequence'', ''20'')]],
       calendarRaw = [map_of [(''service_id'', ''WD''), (''monday'', ''1''),
                              (''start_date'', ''20240101''), (''end_date'', ''20241230'')]] \<rparr>"

definition exampleStatic :: static_data where
  "exampleStatic =
     (case loadStaticData utc plainFloat exampleTables of
        Inr sd \<Rightarrow> sd
      | Inl e \<Rightarrow> \<lparr> routes = [], stops = [], staticTrips = [], shapesById = Map.empty,
                    stopSchedulesByStopId = Map.empty, routesById = Map.empty,
                    staticTripsById = Map.empty, calendarByServiceId = Map.empty \<rparr>)"

text \<open>
  Instants of the examples, in milliseconds: Sunday 2024-03-03 07:00, Monday 2024-03-04
  04:00, 07:00 and 08:30, Monday 2024-12-30 10:00 (all UTC); and a date reader that knows
  the ISO texts of three of them.
\<close>

definition sunday0700 :: int where
  "sunday0700 = 1709449200000"

definition monday0400 :: int where
  "monday0400 = 1709524800000"

definition monday0700 :: int where
  "monday0700 = 1709535600000"

definition monday0830 :: int where
  "monday0830 = 1709541000000"

definition lastMonday1000 :: int where
  "lastMonday1000 = 1735552800000"

definition exampleDateParse :: "string \<Rightarrow> int option" where
  "exampleDateParse =
     map_of [(''2024-03-04T04:00:00Z'', monday0400), (''2024-03-04T07:00:00Z'', monday0700),
             (''2024-03-04T08:30:00Z'', monday0830)]"

text \<open>A clock face for the examples: hours and minutes of the instant, in UTC.\<close>

definition exampleClock :: "int \<Rightarrow> string" where
  "exampleClock t =
     padStart2 (natString (HourFromTime t)) @ '':'' @ padStart2 (natString (MinFromTime t))"



text \<open>Rows of the shapes and stop-times tables with a given sequence cell.\<close>

definition exampleShapeRow :: "string \<Rightarrow> string \<Rightarrow> string \<Rightarrow> csv_row" where
  "exampleShapeRow sid lat sq =
     map_of [(''shape_id'', sid), (''shape_pt_lat'', lat), (''shape_pt_lon'', ''-63''),
             (''shape_pt_sequence'', sq)]"

definition exampleStopTimeRow :: "string \<Rightarrow> csv_row" where
  "exampleStopTimeRow sq =
     map_of [(''trip_id'', ''T1''), (''stop_id'', ''S1''), (''arrival_time'', ''08:00:00''),
             (''stop_sequence'', sq)]"

text \<open>The example archive with a given shapes table.\<close>

definition exampleShapeTables :: "csv_row list \<Rightarrow> tables" where
  "exampleShapeTables rows = exampleTables \<lparr> shapesRaw := rows \<rparr>"

text \<open>
  A row that has the columns of several tables, with the numeric cells blank or not
  numeric.
\<close>

definition exampleBlankRow :: csv_row where
  "exampleBlankRow =
     map_of [(''route_type'', []), (''direction_id'', ''x''),
             (''shape_id'', ''A''), (''shape_pt_lat'', ''44''), (''shape_pt_lon'', ''-63''),
             (''shape_pt_sequence'', []),
             (''stop_id'', ''S1''), (''trip_id'', ''T1''), (''arrival_time'', ''08:00:00''),
             (''stop_sequence'', ''n/a'')]"

text \<open>A vehicle entity that carries neither a position nor a trip.\<close>

definition exampleBareVehicle :: feed_entity where
  "exampleBareVehicle =
     \<lparr> fe_id = ''e1'', fe_tripUpdate = None,
       fe_vehicle = Some \<lparr> vp_trip = None, vp_position = None, vp_vehicle = None,
                           vp_timestamp = None, vp_currentStopSequence = None,
                           vp_stopId = None, vp_congestionLevel = None \<rparr> \<rparr>"

text \<open>A trip update for trip \<open>t\<close> predicting one arrival at a stop, at \<open>secs\<close>.\<close>

definition exampleTripUpdate :: "string \<Rightarrow> string \<Rightarrow> int \<Rightarrow> feed_entity" where
  "exampleTripUpdate t stp secs =
     \<lparr> fe_id = t,
       fe_tripUpdate = Some
         \<lparr> tu_trip = Some \<lparr> td_tripId = Some t, td_routeId = None, td_directionId = None,
                             td_scheduleRelationship = None \<rparr>,
           tu_vehicle = None,
           tu_stopTimeUpdate = Some
             [\<lparr> stu_stopId = Some stp, stu_arrival = Some \<lparr> ste_time = Some secs \<rparr>,
                stu_departure = None, stu_stopSequence = None \<rparr>] \<rparr>,
       fe_vehicle = None \<rparr>"

text \<open>
  Twenty-one trip updates U0 .. U20, trips the archive does not have, predicted at S1
  one to twenty-one minutes after Monday 07:00.
\<close>

definition exampleFeed21 :: "feed_entity list" where
  "exampleFeed21 =
     map (\<lambda>i. exampleTripUpdate (''U'' @ natString (int i)) ''S1''
                 (monday0700 div 1000 + 60 * (int i + 1)))
       [0..<21]"

section \<open>Vocabulary of the claims\<close>

text \<open>
  A cell that is blank or not numeric: absent, empty, or with no decimal digit after its
  leading white space and one optional sign.
\<close>

definition blankOrNonNumeric :: "string option \<Rightarrow> bool" where
  "blankOrNonNumeric v =
     (case v of
        None \<Rightarrow> True
      | Some s \<Rightarrow>
          (case snd (splitSign (dropWhile isWhite s)) of
             [] \<Rightarrow> True
           | c # _ \<Rightarrow> \<not> isDigit c))"

text \<open>The point a row of the shapes table contributes, with its shape identifier.\<close>

definition shapePointOf :: "(string \<Rightarrow> real option) \<Rightarrow> csv_row \<Rightarrow> (string \<times> shape_point) option" where
  "shapePointOf pf row =
     (if falsyStr (row ''shape_id'') then None
      else (case (parseFloatSafe pf (row ''shape_pt_lat''),
                  parseFloatSafe pf (row ''shape_pt_lon'')) of
              (Some la, Some lo) \<Rightarrow>
                Some (the (row ''shape_id''),
                      \<lparr> shape_pt_lat = la, shape_pt_lon = lo,
                        shape_pt_sequence = (case parseIntSafe (row ''shape_pt_sequence'') of
                                               None \<Rightarrow> 0 | Some n \<Rightarrow> n) \<rparr>)
            | _ \<Rightarrow> None))"

text \<open>The points the rows give to one shape, in row order.\<close>

definition shapeRowPoints :: "(string \<Rightarrow> real option) \<Rightarrow> csv_row list \<Rightarrow> string \<Rightarrow> shape_point list" where
  "shapeRowPoints pf rows sid =
     map snd (filter (\<lambda>kp. fst kp = sid) (List.map_filter (shapePointOf pf) rows))"

section \<open>Vocabulary of the proofs\<close>

text \<open>A trip-keyed map is well formed: keys distinct, every value under its own trip.\<close>

definition keyed :: "(string \<times> arrival) list \<Rightarrow> bool" where
  "keyed m = (distinct (map fst m) \<and> list_all (\<lambda>(k, a). tripId a = k) m)"

text \<open>The two loops of \<open>mergeByTrip\<close>, from any starting map.\<close>

definition rtFold :: "arrival list \<Rightarrow> (string \<times> arrival) list \<Rightarrow> (string \<times> arrival) list" where
  "rtFold realtime m = fold (\<lambda>r m. mapSet (tripId r) r m) realtime m"

definition schFold :: "arrival list \<Rightarrow> (string \<times> arrival) list \<Rightarrow> (string \<times> arrival) list" where
  "schFold scheduled m =
     fold (\<lambda>s m. if \<not> mapHas m (tripId s) then mapSet (tripId s) s m else m) scheduled m"

text \<open>
  What every entry of the realtime trip map satisfies: it sits under its own trip, is
  tagged realtime, and has no route data when the archive does not know the trip.
\<close>

definition rtInv :: "static_data \<Rightarrow> (string \<times> arrival) list \<Rightarrow> bool" where
  "rtInv sd m =
     list_all (\<lambda>(k, a). tripId a = k \<and> dataSource a = Realtime
                 \<and> (staticTripsById sd k = None \<longrightarrow>
                      routeId a = None \<and> routeShortName a = None
                      \<and> routeLongName a = None \<and> headsign a = None)) m"

section \<open>Sorting and insertion-ordered maps\<close>

lemma set_insertBy: "set (insertBy cmp x ys) = insert x (set ys)"
  by (induction ys) auto

lemma length_insertBy: "length (insertBy cmp x ys) = Suc (length ys)"
  by (induction ys) auto

lemma set_jsSort: "set (jsSort cmp xs) = set xs"
  by (induction xs) (simp_all add: jsSort_def set_insertBy)

lemma length_jsSort: "length (jsSort cmp xs) = length xs"
  by (induction xs) (simp_all add: jsSort_def length_insertBy)

lemma distinct_map_insertBy:
  "distinct (map f (insertBy cmp x ys)) = (f x \<notin> f ` set ys \<and> distinct (map f ys))"
  by (induction ys) (auto simp: set_insertBy)

lemma distinct_map_jsSort: "distinct (map f (jsSort cmp xs)) = distinct (map f xs)"
  by (induction xs) (simp_all add: jsSort_def distinct_map_insertBy set_insertBy set_jsSort[unfolded jsSort_def])


lemma map_fst_mapSet_old: "k \<in> fst ` set m \<Longrightarrow> map fst (mapSet k v m) = map fst m"
  by (induction m) force+

lemma map_fst_mapSet_new: "k \<notin> fst ` set m \<Longrightarrow> map fst (mapSet k v m) = map fst m @ [k]"
  by (induction m) auto

lemma map_fst_mapSet:
  "map fst (mapSet k v m) = (if k \<in> fst ` set m then map fst m else map fst m @ [k])"
  by (simp add: map_fst_mapSet_old map_fst_mapSet_new)

lemma find_app:
  "find P (xs @ ys) = (case find P xs of None \<Rightarrow> find P ys | Some x \<Rightarrow> Some x)"
  by (induction xs) auto

lemma map_of_mapSet: "map_of (mapSet k v m) = (map_of m)(k \<mapsto> v)"
  by (induction m) (auto simp: fun_eq_iff)

lemma distinct_mapSet: "distinct (map fst m) \<Longrightarrow> distinct (map fst (mapSet k v m))"
  by (simp add: map_fst_mapSet)


lemma keyed_mapSet: "keyed m \<Longrightarrow> keyed (mapSet (tripId a) a m)"
  unfolding keyed_def
  by (induction m) (auto simp: map_fst_mapSet split: if_splits)


lemma keyed_Nil: "keyed []"
  by (simp add: keyed_def)

lemma rtFold_simps:
  "rtFold [] m = m" "rtFold (r # rs) m = rtFold rs (mapSet (tripId r) r m)"
  by (simp_all add: rtFold_def)

lemma schFold_simps:
  "schFold [] m = m"
  "schFold (s # ss) m = schFold ss (if map_of m (tripId s) = None then mapSet (tripId s) s m else m)"
  by (simp_all add: schFold_def mapHas_def)

lemma keyed_rtFold: "keyed m \<Longrightarrow> keyed (rtFold rs m)"
  by (induction rs arbitrary: m) (auto simp: keyed_mapSet rtFold_simps)

lemma keyed_schFold: "keyed m \<Longrightarrow> keyed (schFold ss m)"
  by (induction ss arbitrary: m) (auto simp: keyed_mapSet schFold_simps)

lemma map_of_rtFold:
  "map_of (rtFold rs m) t = (case find (\<lambda>r. tripId r = t) (rev rs) of Some r \<Rightarrow> Some r | None \<Rightarrow> map_of m t)"
proof (induction rs arbitrary: m)
  case Nil then show ?case by (simp add: rtFold_simps)
next
  case (Cons r rs)
  show ?case
    by (simp add: rtFold_simps Cons.IH map_of_mapSet find_app split: option.splits)
qed

lemma map_of_schFold:
  "map_of (schFold ss m) t = (case map_of m t of Some a \<Rightarrow> Some a | None \<Rightarrow> find (\<lambda>s. tripId s = t) ss)"
proof (induction ss arbitrary: m)
  case Nil then show ?case by (simp add: schFold_simps split: option.splits)
next
  case (Cons s ss)
  show ?case
    by (auto simp add: schFold_simps Cons.IH map_of_mapSet split: option.splits)
qed

lemma mergeByTrip_alt: "mergeByTrip rs ss = schFold ss (rtFold rs [])"
  by (simp add: mergeByTrip_def schFold_def rtFold_def)

lemma keyed_mergeByTrip: "keyed (mergeByTrip rs ss)"
  by (simp add: mergeByTrip_alt keyed_schFold keyed_rtFold keyed_Nil)

lemma map_of_mergeByTrip:
  "map_of (mergeByTrip rs ss) t =
     (case find (\<lambda>r. tripId r = t) (rev rs) of Some r \<Rightarrow> Some r
      | None \<Rightarrow> find (\<lambda>s. tripId s = t) ss)"
  by (simp add: mergeByTrip_alt map_of_schFold map_of_rtFold split: option.splits)

lemma keyed_values:
  assumes "keyed m"
  shows "map tripId (mapValues m) = map fst m"
  using assms unfolding keyed_def mapValues_def by (induction m) auto

lemma keyed_member:
  assumes "keyed m" "a \<in> set (mapValues m)"
  shows "map_of m (tripId a) = Some a"
proof -
  from assms(2) obtain k where ka: "(k, a) \<in> set m" by (auto simp: mapValues_def)
  with assms(1) have "tripId a = k" by (auto simp: keyed_def list_all_iff)
  with ka assms(1) show ?thesis by (simp add: keyed_def)
qed

lemma find_SomeD: "find P xs = Some y \<Longrightarrow> y \<in> set xs \<and> P y"
  by (induction xs) (auto split: if_splits)

lemma find_ex: "x \<in> set xs \<Longrightarrow> P x \<Longrightarrow> \<exists>y. find P xs = Some y"
  by (induction xs) auto

lemma dom_mergeByTrip:
  "fst ` set (mergeByTrip rs ss) = tripId ` (set rs \<union> set ss)"
proof -
  have "fst ` set (mergeByTrip rs ss) = dom (map_of (mergeByTrip rs ss))"
    by (simp add: dom_map_of_conv_image_fst)
  also have "\<dots> = tripId ` (set rs \<union> set ss)"
  proof (rule set_eqI)
    fix t
    show "t \<in> dom (map_of (mergeByTrip rs ss)) \<longleftrightarrow> t \<in> tripId ` (set rs \<union> set ss)"
    proof
      assume "t \<in> dom (map_of (mergeByTrip rs ss))"
      then obtain a where "map_of (mergeByTrip rs ss) t = Some a" by auto
      then have "find (\<lambda>r. tripId r = t) (rev rs) = Some a \<or> find (\<lambda>s. tripId s = t) ss = Some a"
        by (simp add: map_of_mergeByTrip split: option.splits)
      then show "t \<in> tripId ` (set rs \<union> set ss)"
        by (auto dest!: find_SomeD)
    next
      assume "t \<in> tripId ` (set rs \<union> set ss)"
      then obtain x where x: "x \<in> set (rev rs) \<or> x \<in> set ss" "tripId x = t" by auto
      then have "(\<exists>y. find (\<lambda>r. tripId r = t) (rev rs) = Some y) \<or> (\<exists>y. find (\<lambda>s. tripId s = t) ss = Some y)"
        using find_ex[of x "rev rs" "\<lambda>r. tripId r = t"] find_ex[of x ss "\<lambda>r. tripId r = t"] by blast
      then show "t \<in> dom (map_of (mergeByTrip rs ss))"
        by (auto simp: map_of_mergeByTrip split: option.splits)
    qed
  qed
  finally show ?thesis .
qed

lemma length_mergeByTrip:
  "length (mergeByTrip rs ss) = card (tripId ` (set rs \<union> set ss))"
proof -
  have d: "distinct (map fst (mergeByTrip rs ss))"
    using keyed_mergeByTrip[of rs ss] by (simp add: keyed_def)
  have "length (mergeByTrip rs ss) = length (map fst (mergeByTrip rs ss))" by simp
  also have "\<dots> = card (set (map fst (mergeByTrip rs ss)))"
    using distinct_card[OF d] by simp
  also have "\<dots> = card (tripId ` (set rs \<union> set ss))"
    by (simp add: dom_mergeByTrip)
  finally show ?thesis .
qed

lemma merged_entry:
  assumes "a \<in> set (mergeArrivals lc rs ss)"
  shows "(case find (\<lambda>r. tripId r = tripId a) (rev rs) of
            Some r \<Rightarrow> a = r
          | None \<Rightarrow> find (\<lambda>s. tripId s = tripId a) ss = Some a)"
proof -
  from assms have "a \<in> set (jsSort (arrivalCompare lc) (mapValues (mergeByTrip rs ss)))"
    unfolding mergeArrivals_def by (rule in_set_takeD)
  then have "a \<in> set (mapValues (mergeByTrip rs ss))" by (simp add: set_jsSort)
  then have "map_of (mergeByTrip rs ss) (tripId a) = Some a"
    by (rule keyed_member[OF keyed_mergeByTrip])
  then show ?thesis by (simp add: map_of_mergeByTrip split: option.splits)
qed

lemma merged_distinct: "distinct (map tripId (mergeArrivals lc rs ss))"
proof -
  have "distinct (map tripId (mapValues (mergeByTrip rs ss)))"
    using keyed_mergeByTrip[of rs ss] by (simp add: keyed_values keyed_def)
  then have "distinct (map tripId (jsSort (arrivalCompare lc) (mapValues (mergeByTrip rs ss))))"
    by (simp add: distinct_map_jsSort)
  then show ?thesis
    unfolding mergeArrivals_def by (simp add: take_map[symmetric] distinct_take del: take_map)
qed

lemma merged_all:
  assumes "card (tripId ` (set rs \<union> set ss)) \<le> 20"
  shows "tripId ` set (mergeArrivals lc rs ss) = tripId ` (set rs \<union> set ss)"
proof -
  let ?vs = "jsSort (arrivalCompare lc) (mapValues (mergeByTrip rs ss))"
  have "length ?vs \<le> 20"
    using assms by (simp add: length_jsSort mapValues_def length_mergeByTrip)
  then have "mergeArrivals lc rs ss = ?vs" by (simp add: mergeArrivals_def)
  then have "tripId ` set (mergeArrivals lc rs ss) = set (map tripId (mapValues (mergeByTrip rs ss)))"
    by (simp add: set_jsSort)
  also have "\<dots> = fst ` set (mergeByTrip rs ss)"
    by (simp add: keyed_values[OF keyed_mergeByTrip])
  finally show ?thesis by (simp add: dom_mergeByTrip)
qed

section \<open>The merge (claim C2)\<close>

text \<open>
  C2, amended. The merged list holds at most one entry per trip identifier. Every entry of
  the merged list whose trip is in the realtime list is that trip's realtime entry (the
  last one the realtime list has for the trip), never the scheduled one; every other
  entry is the first scheduled entry of its trip. The list is cut to 20 after sorting, so
  a trip of the inputs is sure to appear only when the two lists hold at most 20 distinct
  trips.
\<close>

theorem mergeArrivals_one_entry_per_trip:
  "distinct (map tripId (mergeArrivals lc realtime scheduled))
   \<and> (\<forall>a \<in> set (mergeArrivals lc realtime scheduled).
         case find (\<lambda>r. tripId r = tripId a) (rev realtime) of
           Some r \<Rightarrow> a = r
         | None \<Rightarrow> find (\<lambda>s. tripId s = tripId a) scheduled = Some a)
   \<and> (card (tripId ` (set realtime \<union> set scheduled)) \<le> 20 \<longrightarrow>
        tripId ` set (mergeArrivals lc realtime scheduled)
          = tripId ` (set realtime \<union> set scheduled))"
  using merged_distinct merged_entry merged_all by blast

theorem mergeArrivals_one_entry_per_trip_witness:
  "card (tripId ` (set [exampleArrival ''T1'' ''10:05'' Realtime]
           \<union> set [exampleArrival ''T1'' ''08:00:00'' Scheduled,
                     exampleArrival ''T2'' ''09:00:00'' Scheduled])) \<le> 20
   \<and> mergeArrivals codeUnitCompare [exampleArrival ''T1'' ''10:05'' Realtime]
         [exampleArrival ''T1'' ''08:00:00'' Scheduled, exampleArrival ''T2'' ''09:00:00'' Scheduled]
       = [exampleArrival ''T2'' ''09:00:00'' Scheduled, exampleArrival ''T1'' ''10:05'' Realtime]
   \<and> distinct (map tripId (mergeArrivals codeUnitCompare [exampleArrival ''T1'' ''10:05'' Realtime]
         [exampleArrival ''T1'' ''08:00:00'' Scheduled, exampleArrival ''T2'' ''09:00:00'' Scheduled]))
   \<and> tripId ` set (mergeArrivals codeUnitCompare [exampleArrival ''T1'' ''10:05'' Realtime]
         [exampleArrival ''T1'' ''08:00:00'' Scheduled, exampleArrival ''T2'' ''09:00:00'' Scheduled])
       = tripId ` (set [exampleArrival ''T1'' ''10:05'' Realtime]
           \<union> set [exampleArrival ''T1'' ''08:00:00'' Scheduled,
                     exampleArrival ''T2'' ''09:00:00'' Scheduled])"
proof -
  let ?rt = "[exampleArrival ''T1'' ''10:05'' Realtime]"
  let ?sch = "[exampleArrival ''T1'' ''08:00:00'' Scheduled, exampleArrival ''T2'' ''09:00:00'' Scheduled]"
  have c: "card (tripId ` (set ?rt \<union> set ?sch)) \<le> 20"
    by code_simp
  have e: "mergeArrivals codeUnitCompare ?rt ?sch
             = [exampleArrival ''T2'' ''09:00:00'' Scheduled, exampleArrival ''T1'' ''10:05'' Realtime]"
    by code_simp
  from mergeArrivals_one_entry_per_trip[of codeUnitCompare ?rt ?sch] c e
  show ?thesis by blast
qed

text \<open>
  C2 as stated fails where the cut to 20 removes a trip: T20 is in both lists and the
  merged list has no entry for it.
\<close>

theorem mergeArrivals_drops_realtime_trip_counterexample:
  "''T20'' \<in> tripId ` set exampleRealtime21
   \<and> ''T20'' \<in> tripId ` set exampleScheduled21
   \<and> ''T20'' \<notin> tripId ` set (mergeArrivals codeUnitCompare exampleRealtime21 exampleScheduled21)"
  by code_simp

section \<open>The merged endpoint outside the realtime window (claim C1)\<close>





lemma handler_outside:
  assumes "stopId \<noteq> []"
    and "\<bar>parseRequestTime dp now timeParam - now\<bar> > USE_REALTIME_WINDOW_MS"
  shows "stopArrivalsHandler tza lc fmt dp sd now fd (Some stopId) timeParam
     = (Json (mergeArrivals lc []
          (getScheduledArrivalsAtStop tza sd now stopId (parseRequestTime dp now timeParam))), 0)"
  using assms by (simp add: stopArrivalsHandler_def falsyStr_def Let_def)





section \<open>A failed feed on the merged endpoint (claim C5)\<close>

lemma handler_inside_failure:
  assumes "stopId \<noteq> []"
    and "\<bar>parseRequestTime dp now timeParam - now\<bar> \<le> USE_REALTIME_WINDOW_MS"
  shows "stopArrivalsHandler tza lc fmt dp sd now (Inl e) (Some stopId) timeParam
     = (InternalServerError, 1)"
  using assms by (simp add: stopArrivalsHandler_def falsyStr_def Let_def getBusesArrivingAtStop_def)

text \<open>
  C5, amended. When reading the trip-updates feed fails (download or decoding) and the
  request time is within two hours of the current instant, the merged endpoint answers
  500; the failure is not replaced by schedule data. When the request time is further
  away the feed is not read, and the answer is the schedule-only merge whatever the
  state of the feed.
\<close>

theorem stopArrivals_feed_failure:
  assumes "stopId \<noteq> []"
  shows "(\<bar>parseRequestTime dp now timeParam - now\<bar> \<le> 2 * 60 * 60 * 1000 \<longrightarrow>
            stopArrivalsHandler tza lc fmt dp sd now (Inl e) (Some stopId) timeParam
              = (InternalServerError, 1))
         \<and> (\<bar>parseRequestTime dp now timeParam - now\<bar> > 2 * 60 * 60 * 1000 \<longrightarrow>
            stopArrivalsHandler tza lc fmt dp sd now (Inl e) (Some stopId) timeParam
              = (Json (mergeArrivals lc []
                   (getScheduledArrivalsAtStop tza sd now stopId
                      (parseRequestTime dp now timeParam))), 0))"
  using handler_inside_failure[OF assms, of dp now timeParam tza lc fmt sd e]
    handler_outside[OF assms, of dp now timeParam tza lc fmt sd "Inl e"]
  by (simp add: USE_REALTIME_WINDOW_MS_def)

theorem stopArrivals_feed_failure_witness:
  "''S1'' \<noteq> []
   \<and> \<bar>parseRequestTime exampleDateParse monday0700 None - monday0700\<bar> \<le> 2 * 60 * 60 * 1000
   \<and> stopArrivalsHandler utc codeUnitCompare exampleClock exampleDateParse exampleStatic monday0700
         (Inl DecodeFailed) (Some ''S1'') None = (InternalServerError, 1)
   \<and> \<bar>parseRequestTime exampleDateParse monday0700 (Some ''2024-03-04T04:00:00Z'') - monday0700\<bar>
        > 2 * 60 * 60 * 1000
   \<and> stopArrivalsHandler utc codeUnitCompare exampleClock exampleDateParse exampleStatic monday0700
         (Inl DecodeFailed) (Some ''S1'') (Some ''2024-03-04T04:00:00Z'')
       = (Json (mergeArrivals codeUnitCompare []
            (getScheduledArrivalsAtStop utc exampleStatic monday0700 ''S1''
               (parseRequestTime exampleDateParse monday0700 (Some ''2024-03-04T04:00:00Z'')))), 0)"
proof -
  have h1: "''S1'' \<noteq> []" by simp
  have h2: "\<bar>parseRequestTime exampleDateParse monday0700 None - monday0700\<bar> \<le> 2 * 60 * 60 * 1000"
    by code_simp
  have h3: "\<bar>parseRequestTime exampleDateParse monday0700 (Some ''2024-03-04T04:00:00Z'') - monday0700\<bar>
        > 2 * 60 * 60 * 1000"
    by code_simp
  from stopArrivals_feed_failure[OF h1, of exampleDateParse monday0700 None utc codeUnitCompare
      exampleClock exampleStatic DecodeFailed]
    stopArrivals_feed_failure[OF h1, of exampleDateParse monday0700 "Some ''2024-03-04T04:00:00Z''"
      utc codeUnitCompare exampleClock exampleStatic DecodeFailed]
    h1 h2 h3
  show ?thesis by blast
qed

text \<open>
  C5 as stated fails: with the feed down and no \<open>time\<close> parameter the answer is the
  500, although the schedule has two arrivals to offer.
\<close>

theorem stopArrivals_feed_failure_counterexample:
  "stopArrivalsHandler utc codeUnitCompare exampleClock exampleDateParse exampleStatic monday0700
      (Inl FetchFailed) (Some ''S1'') None = (InternalServerError, 1)
   \<and> map (\<lambda>a. (tripId a, arrivalTime a))
         (getScheduledArrivalsAtStop utc exampleStatic monday0700 ''S1'' monday0700)
       = [(''T1'', ''08:00:00''), (''T1'', ''09:00:00'')]"
  by code_simp

section \<open>The calendar test (claims C3 and C4)\<close>

text \<open>
  What the code computes. The schedule query reads its \<open>time\<close> argument only through
  the seconds since local midnight: two query times with the same time of day give the
  same answer, whatever their dates. The service test compares instants: with valid
  dates it holds exactly when the weekday flag of the tested instant is set and the
  instant lies between the two stored instants.
\<close>

lemma getScheduledArrivalsAtStop_ignores_query_date:
  "secondsSinceMidnight tza t1 = secondsSinceMidnight tza t2 \<Longrightarrow>
     getScheduledArrivalsAtStop tza sd now stopId t1
       = getScheduledArrivalsAtStop tza sd now stopId t2"
  by (simp add: getScheduledArrivalsAtStop_def)

lemma isServiceRunningToday_instants:
  assumes "cal k = Some svc" "startDate svc = Some s" "endDate svc = Some e"
  shows "isServiceRunningToday tza cal (Some k) today
           \<longleftrightarrow> serviceFlag svc (weekdayKeys ! nat (getDay tza today))
               \<and> s \<le> today \<and> today \<le> e"
  using assms by (auto simp: isServiceRunningToday_def Let_def dateLt_def dateGt_def)

lemma parseYyyyMmDd_example_end: "parseYyyyMmDd utc ''20241230'' = Some 1735516800000"
  by code_simp

text \<open>
  C3, evaluated where the code departs from it. \<open>getScheduledArrivalsAtStop\<close> tests the
  service against the clock, not against the query time: asked on Sunday 2024-03-03 about
  Monday 07:00 it returns nothing although WD runs on that Monday, and asked on Monday
  about Sunday 07:00 it returns Monday's trips.
\<close>

theorem scheduledArrivals_calendar_reads_clock:
  "getDay utc sunday0700 = 0 \<and> getDay utc monday0700 = 1
   \<and> isServiceRunningToday utc (calendarByServiceId exampleStatic) (Some ''WD'') monday0700
   \<and> \<not> isServiceRunningToday utc (calendarByServiceId exampleStatic) (Some ''WD'') sunday0700
   \<and> getScheduledArrivalsAtStop utc exampleStatic sunday0700 ''S1'' monday0700 = []
   \<and> map (\<lambda>a. (tripId a, arrivalTime a))
         (getScheduledArrivalsAtStop utc exampleStatic monday0700 ''S1'' sunday0700)
       = [(''T1'', ''08:00:00''), (''T1'', ''09:00:00'')]"
  by code_simp

text \<open>
  C4, evaluated where the code departs from it. The end date of WD is 2024-12-30, read
  as the first instant of that day. At 10:00 on 2024-12-30, a Monday with the Monday
  flag set, the test answers false; only at 00:00:00.000 of the end date it answers true.
\<close>

theorem service_not_running_during_end_date:
  "map_option endDate (calendarByServiceId exampleStatic ''WD'') = Some (parseYyyyMmDd utc ''20241230'')
   \<and> parseYyyyMmDd utc ''20241230'' = Some (lastMonday1000 - 10 * 3600000)
   \<and> map_option monday (calendarByServiceId exampleStatic ''WD'') = Some True
   \<and> getDay utc lastMonday1000 = 1
   \<and> Day (LocalTime utc lastMonday1000) = Day (LocalTime utc (lastMonday1000 - 10 * 3600000))
   \<and> isServiceRunningToday utc (calendarByServiceId exampleStatic) (Some ''WD'')
         (lastMonday1000 - 10 * 3600000)
   \<and> \<not> isServiceRunningToday utc (calendarByServiceId exampleStatic) (Some ''WD'') lastMonday1000"
  by code_simp

section \<open>Vehicle positions (claim C8)\<close>

lemma normalizeVehicle_fields:
  assumes "fe_vehicle e = Some v"
  shows "v_entityId (normalizeVehicle e) = fe_id e"
    and "vp_position v = None \<Longrightarrow>
           v_position (normalizeVehicle e)
             = \<lparr> latitude = None, longitude = None, bearing = None, speed = None \<rparr>"
    and "vp_trip v = None \<Longrightarrow> v_tripId (normalizeVehicle e) = None"
    and "vp_trip v = Some t \<Longrightarrow> v_tripId (normalizeVehicle e) = td_tripId t"
  using assms by (simp_all add: normalizeVehicle_def Let_def)

text \<open>
  C8, amended. Decoding the vehicle-positions feed raises no error for an incomplete
  entity. An entity without a vehicle message is dropped. Every entity with a vehicle
  message is kept, in feed order, also when it has no position or no trip: the vehicle
  returned for it then has absent coordinates, and an absent trip identifier.
\<close>

theorem loadVehiclePositions_keeps_incomplete:
  "\<exists>vs. loadVehiclePositions (Inr entities) = Inr vs
      \<and> map v_entityId vs = map fe_id (filter (\<lambda>e. fe_vehicle e \<noteq> None) entities)
      \<and> (\<forall>e \<in> set entities. \<forall>v. fe_vehicle e = Some v \<longrightarrow>
            (\<exists>x \<in> set vs. v_entityId x = fe_id e
               \<and> (vp_position v = None \<longrightarrow>
                    v_position x = \<lparr> latitude = None, longitude = None, bearing = None, speed = None \<rparr>)
               \<and> (vp_trip v = None \<longrightarrow> v_tripId x = None)
               \<and> (\<forall>t. vp_trip v = Some t \<longrightarrow> v_tripId x = td_tripId t)))"
proof -
  let ?vs = "map normalizeVehicle (filter (\<lambda>e. fe_vehicle e \<noteq> None) entities)"
  have a: "loadVehiclePositions (Inr entities) = Inr ?vs"
    by (simp add: loadVehiclePositions_def)
  have b: "map v_entityId ?vs = map fe_id (filter (\<lambda>e. fe_vehicle e \<noteq> None) entities)"
    by (induction entities) (auto simp: normalizeVehicle_fields(1))
  have c: "\<exists>x \<in> set ?vs. v_entityId x = fe_id e
               \<and> (vp_position v = None \<longrightarrow>
                    v_position x = \<lparr> latitude = None, longitude = None, bearing = None, speed = None \<rparr>)
               \<and> (vp_trip v = None \<longrightarrow> v_tripId x = None)
               \<and> (\<forall>t. vp_trip v = Some t \<longrightarrow> v_tripId x = td_tripId t)"
    if "e \<in> set entities" "fe_vehicle e = Some v" for e v
  proof -
    from that have "normalizeVehicle e \<in> set ?vs" by auto
    then show ?thesis
      using normalizeVehicle_fields[OF that(2)]
      by (intro bexI[where x = "normalizeVehicle e"]) auto
  qed
  from a b c show ?thesis by blast
qed

theorem loadVehiclePositions_keeps_incomplete_witness:
  "exampleBareVehicle \<in> set [exampleBareVehicle]
   \<and> fe_vehicle exampleBareVehicle \<noteq> None
   \<and> (\<exists>vs. loadVehiclePositions (Inr [exampleBareVehicle]) = Inr vs
         \<and> map v_entityId vs = [''e1''])"
proof -
  have f: "map fe_id (filter (\<lambda>e. fe_vehicle e \<noteq> None) [exampleBareVehicle]) = [''e1'']"
    by code_simp
  have g: "fe_vehicle exampleBareVehicle \<noteq> None" by code_simp
  from loadVehiclePositions_keeps_incomplete[of "[exampleBareVehicle]"] f g
  show ?thesis by auto
qed

text \<open>
  C8 as stated fails: an entity whose vehicle has neither position nor trip appears in
  the returned list.
\<close>

theorem loadVehiclePositions_keeps_incomplete_counterexample:
  "loadVehiclePositions (Inr [exampleBareVehicle])
     = Inr [\<lparr> v_entityId = ''e1'', v_vehicleId = ''e1'', v_tripId = None, v_routeId = None,
              v_directionId = None,
              v_position = \<lparr> latitude = None, longitude = None, bearing = None, speed = None \<rparr>,
              v_timestamp = None, v_currentStopSequence = None, v_stopId = None,
              v_congestionLevel = None, v_scheduleRelationship = None, v_label = None,
              v_licensePlate = None \<rparr>]"
  by code_simp


section \<open>The absent-value policy of the numeric fields (claim C7)\<close>

lemma takeWhile_digits_Nil:
  "takeWhile isDigit u = [] \<longleftrightarrow> (case u of [] \<Rightarrow> True | c # _ \<Rightarrow> \<not> isDigit c)"
  by (cases u) auto

lemma parseInt10_None:
  "parseInt10 s = None \<longleftrightarrow>
     (case snd (splitSign (dropWhile isWhite s)) of [] \<Rightarrow> True | c # _ \<Rightarrow> \<not> isDigit c)"
  by (simp add: parseInt10_def Let_def case_prod_beta takeWhile_digits_Nil)

lemma parseIntSafe_None: "parseIntSafe v = None \<longleftrightarrow> blankOrNonNumeric v"
proof (cases v)
  case None
  then show ?thesis by (simp add: parseIntSafe_def blankOrNonNumeric_def)
next
  case (Some s)
  show ?thesis
  proof (cases "s = []")
    case True
    with Some show ?thesis by (simp add: parseIntSafe_def blankOrNonNumeric_def)
  next
    case False
    with Some show ?thesis
      by (simp add: parseIntSafe_def blankOrNonNumeric_def parseInt10_None)
  qed
qed

lemma shapeStep_absent_sequence:
  assumes "blankOrNonNumeric (row ''shape_pt_sequence'')"
    and "row ''shape_id'' = Some sid" "sid \<noteq> []"
    and "parseFloatSafe pf (row ''shape_pt_lat'') = Some la"
    and "parseFloatSafe pf (row ''shape_pt_lon'') = Some lo"
  shows "shapeStep pf row m sid
           = Some ((case m sid of None \<Rightarrow> [] | Some ps \<Rightarrow> ps)
                   @ [\<lparr> shape_pt_lat = la, shape_pt_lon = lo, shape_pt_sequence = 0 \<rparr>])"
proof -
  from assms(1) have "parseIntSafe (row ''shape_pt_sequence'') = None"
    by (simp add: parseIntSafe_None)
  with assms(2-) show ?thesis
    by (simp add: shapeStep_def falsyStr_def Let_def)
qed

lemma stopTimeStep_absent_sequence:
  assumes "blankOrNonNumeric (row ''stop_sequence'')"
    and "row ''stop_id'' = Some sid" "sid \<noteq> []"
    and "row ''trip_id'' = Some t" "t \<noteq> []"
    and "row ''arrival_time'' = Some a" "a \<noteq> []"
    and "timeToSeconds (Some a) = Some secs"
  shows "stopTimeStep row m sid
           = Some ((case m sid of None \<Rightarrow> [] | Some l \<Rightarrow> l)
                   @ [\<lparr> e_tripId = t, e_arrivalTime = a,
                        e_arrivalLabel = formatScheduleLabel (Some a),
                        e_arrivalSeconds = secs, e_stopSequence = 0 \<rparr>])"
proof -
  from assms(1) have "parseIntSafe (row ''stop_sequence'') = None"
    by (simp add: parseIntSafe_None)
  with assms(2-) show ?thesis
    by (simp add: stopTimeStep_def falsyStr_def Let_def)
qed

text \<open>
  C7, amended. \<open>parseIntSafe\<close> yields the absent value exactly on a blank or
  non-numeric cell. The route type and the direction flag keep that absent value in the
  built records. The shape-point sequence number and the stop sequence number do not:
  the builder stores 0 for a blank or non-numeric cell.
\<close>

theorem parseIntSafe_absent_policy:
  "(parseIntSafe v = None \<longleftrightarrow> blankOrNonNumeric v)
   \<and> (blankOrNonNumeric (row ''route_type'') \<longrightarrow> r_route_type (mkRoute row) = None)
   \<and> (blankOrNonNumeric (row ''direction_id'') \<longrightarrow> t_direction_id (mkTrip row) = None)
   \<and> (blankOrNonNumeric (row ''shape_pt_sequence'')
        \<and> row ''shape_id'' = Some sid \<and> sid \<noteq> []
        \<and> parseFloatSafe pf (row ''shape_pt_lat'') = Some la
        \<and> parseFloatSafe pf (row ''shape_pt_lon'') = Some lo
       \<longrightarrow> shapeStep pf row shapes sid
             = Some ((case shapes sid of None \<Rightarrow> [] | Some ps \<Rightarrow> ps)
                     @ [\<lparr> shape_pt_lat = la, shape_pt_lon = lo, shape_pt_sequence = 0 \<rparr>]))
   \<and> (blankOrNonNumeric (row ''stop_sequence'')
        \<and> row ''stop_id'' = Some stp \<and> stp \<noteq> []
        \<and> row ''trip_id'' = Some t \<and> t \<noteq> []
        \<and> row ''arrival_time'' = Some a \<and> a \<noteq> []
        \<and> timeToSeconds (Some a) = Some secs
       \<longrightarrow> stopTimeStep row schedules stp
             = Some ((case schedules stp of None \<Rightarrow> [] | Some l \<Rightarrow> l)
                     @ [\<lparr> e_tripId = t, e_arrivalTime = a,
                          e_arrivalLabel = formatScheduleLabel (Some a),
                          e_arrivalSeconds = secs, e_stopSequence = 0 \<rparr>]))"
proof -
  have r: "blankOrNonNumeric (row ''route_type'') \<longrightarrow> r_route_type (mkRoute row) = None"
    by (simp add: mkRoute_def parseIntSafe_None)
  have d: "blankOrNonNumeric (row ''direction_id'') \<longrightarrow> t_direction_id (mkTrip row) = None"
    by (simp add: mkTrip_def parseIntSafe_None)
  have sh: "blankOrNonNumeric (row ''shape_pt_sequence'')
        \<and> row ''shape_id'' = Some sid \<and> sid \<noteq> []
        \<and> parseFloatSafe pf (row ''shape_pt_lat'') = Some la
        \<and> parseFloatSafe pf (row ''shape_pt_lon'') = Some lo
       \<longrightarrow> shapeStep pf row shapes sid
             = Some ((case shapes sid of None \<Rightarrow> [] | Some ps \<Rightarrow> ps)
                     @ [\<lparr> shape_pt_lat = la, shape_pt_lon = lo, shape_pt_sequence = 0 \<rparr>])"
    using shapeStep_absent_sequence[of row sid pf la lo shapes] by (intro impI) (elim conjE)
  have st: "blankOrNonNumeric (row ''stop_sequence'')
        \<and> row ''stop_id'' = Some stp \<and> stp \<noteq> []
        \<and> row ''trip_id'' = Some t \<and> t \<noteq> []
        \<and> row ''arrival_time'' = Some a \<and> a \<noteq> []
        \<and> timeToSeconds (Some a) = Some secs
       \<longrightarrow> stopTimeStep row schedules stp
             = Some ((case schedules stp of None \<Rightarrow> [] | Some l \<Rightarrow> l)
                     @ [\<lparr> e_tripId = t, e_arrivalTime = a,
                          e_arrivalLabel = formatScheduleLabel (Some a),
                          e_arrivalSeconds = secs, e_stopSequence = 0 \<rparr>])"
    using stopTimeStep_absent_sequence[of row stp t a secs schedules] by (intro impI) (elim conjE)
  from parseIntSafe_None[of v] r d sh st show ?thesis
    by (intro conjI)
qed

theorem parseIntSafe_absent_policy_witness:
  "blankOrNonNumeric (Some ''abc'') \<and> parseIntSafe (Some ''abc'') = None
   \<and> blankOrNonNumeric (exampleBlankRow ''route_type'')
   \<and> r_route_type (mkRoute exampleBlankRow) = None
   \<and> blankOrNonNumeric (exampleBlankRow ''direction_id'')
   \<and> t_direction_id (mkTrip exampleBlankRow) = None
   \<and> blankOrNonNumeric (exampleBlankRow ''shape_pt_sequence'')
   \<and> shapeStep plainFloat exampleBlankRow Map.empty ''A''
       = Some [\<lparr> shape_pt_lat = 44, shape_pt_lon = - 63, shape_pt_sequence = 0 \<rparr>]
   \<and> blankOrNonNumeric (exampleBlankRow ''stop_sequence'')
   \<and> stopTimeStep exampleBlankRow Map.empty ''S1''
       = Some [\<lparr> e_tripId = ''T1'', e_arrivalTime = ''08:00:00'',
                  e_arrivalLabel = formatScheduleLabel (Some ''08:00:00''),
                  e_arrivalSeconds = 28800, e_stopSequence = 0 \<rparr>]"
proof -
  have b0: "blankOrNonNumeric (Some ''abc'')" by code_simp
  have b1: "blankOrNonNumeric (exampleBlankRow ''route_type'')" by code_simp
  have b2: "blankOrNonNumeric (exampleBlankRow ''direction_id'')" by code_simp
  have b3: "blankOrNonNumeric (exampleBlankRow ''shape_pt_sequence'')" by code_simp
  have b4: "blankOrNonNumeric (exampleBlankRow ''stop_sequence'')" by code_simp
  have s1: "exampleBlankRow ''shape_id'' = Some ''A''" by code_simp
  have s2: "parseFloatSafe plainFloat (exampleBlankRow ''shape_pt_lat'') = Some 44" by code_simp
  have s3: "parseFloatSafe plainFloat (exampleBlankRow ''shape_pt_lon'') = Some (- 63)" by code_simp
  have t1: "exampleBlankRow ''stop_id'' = Some ''S1''" by code_simp
  have t2: "exampleBlankRow ''trip_id'' = Some ''T1''" by code_simp
  have t3: "exampleBlankRow ''arrival_time'' = Some ''08:00:00''" by code_simp
  have t4: "timeToSeconds (Some ''08:00:00'') = Some 28800" by code_simp
  note T = parseIntSafe_absent_policy[of "Some ''abc''" exampleBlankRow "''A''" plainFloat 44 "- 63"
      Map.empty "''S1''" "''T1''" "''08:00:00''" 28800 Map.empty]
  have c0: "parseIntSafe (Some ''abc'') = None" using T b0 by blast
  have c1: "r_route_type (mkRoute exampleBlankRow) = None" using T b1 by blast
  have c2: "t_direction_id (mkTrip exampleBlankRow) = None" using T b2 by blast
  have c3: "shapeStep plainFloat exampleBlankRow Map.empty ''A''
       = Some [\<lparr> shape_pt_lat = 44, shape_pt_lon = - 63, shape_pt_sequence = 0 \<rparr>]"
    using T b3 s1 s2 s3 by simp
  have c4: "stopTimeStep exampleBlankRow Map.empty ''S1''
       = Some [\<lparr> e_tripId = ''T1'', e_arrivalTime = ''08:00:00'',
                  e_arrivalLabel = formatScheduleLabel (Some ''08:00:00''),
                  e_arrivalSeconds = 28800, e_stopSequence = 0 \<rparr>]"
    using T b4 t1 t2 t3 t4 by simp
  from b0 b1 b2 b3 b4 c0 c1 c2 c3 c4 show ?thesis by (intro conjI)
qed

text \<open>
  C7 as stated fails for the sequence numbers: a blank sequence cell and the cell 0 build
  the same index.
\<close>

theorem parseIntSafe_absent_policy_counterexample:
  "blankOrNonNumeric (exampleShapeRow ''A'' ''44'' [] ''shape_pt_sequence'')
   \<and> buildShapes plainFloat [exampleShapeRow ''A'' ''44'' []] ''A''
       = Some [\<lparr> shape_pt_lat = 44, shape_pt_lon = - 63, shape_pt_sequence = 0 \<rparr>]
   \<and> buildShapes plainFloat [exampleShapeRow ''A'' ''44'' ''0''] ''A''
       = Some [\<lparr> shape_pt_lat = 44, shape_pt_lon = - 63, shape_pt_sequence = 0 \<rparr>]
   \<and> blankOrNonNumeric (exampleStopTimeRow [] ''stop_sequence'')
   \<and> map_option (map e_stopSequence) (buildStopSchedules [exampleStopTimeRow []] ''S1'') = Some [0]
   \<and> map_option (map e_stopSequence) (buildStopSchedules [exampleStopTimeRow ''0''] ''S1'') = Some [0]"
  by code_simp

section \<open>Shape polylines (claim C9)\<close>

lemma sorted_insertBy_shape:
  "sorted (map shape_pt_sequence ys) \<Longrightarrow>
     sorted (map shape_pt_sequence (insertBy shapeCompare x ys))"
  by (induction ys) (auto simp: set_insertBy shapeCompare_def)

lemma sorted_jsSort_shape: "sorted (map shape_pt_sequence (jsSort shapeCompare xs))"
  by (induction xs) (simp_all add: jsSort_def sorted_insertBy_shape)

lemma shapeStep_alt:
  "shapeStep pf row m =
     (case shapePointOf pf row of
        None \<Rightarrow> m
      | Some (sid, p) \<Rightarrow> m(sid \<mapsto> (case m sid of None \<Rightarrow> [] | Some ps \<Rightarrow> ps) @ [p]))"
  by (simp add: shapeStep_def shapePointOf_def Let_def split: option.splits)

lemma shapeRowPoints_Nil: "shapeRowPoints pf [] sid = []"
  by (simp add: shapeRowPoints_def List.map_filter_simps)

lemma shapeRowPoints_Cons:
  "shapeRowPoints pf (row # rows) sid =
     (case shapePointOf pf row of
        None \<Rightarrow> shapeRowPoints pf rows sid
      | Some (s, p) \<Rightarrow> if s = sid then p # shapeRowPoints pf rows sid
                       else shapeRowPoints pf rows sid)"
  by (simp add: shapeRowPoints_def List.map_filter_simps split: option.splits)

lemma fold_shapeStep:
  "fold (shapeStep pf) rows m sid =
     (if shapeRowPoints pf rows sid = [] then m sid
      else Some ((case m sid of None \<Rightarrow> [] | Some q \<Rightarrow> q) @ shapeRowPoints pf rows sid))"
proof (induction rows arbitrary: m)
  case Nil
  then show ?case by (simp add: shapeRowPoints_Nil)
next
  case (Cons row rows)
  have "fold (shapeStep pf) (row # rows) m sid = fold (shapeStep pf) rows (shapeStep pf row m) sid"
    by simp
  also have "\<dots> =
     (if shapeRowPoints pf rows sid = [] then shapeStep pf row m sid
      else Some ((case shapeStep pf row m sid of None \<Rightarrow> [] | Some q \<Rightarrow> q)
                 @ shapeRowPoints pf rows sid))"
    by (rule Cons.IH)
  also have "\<dots> =
     (if shapeRowPoints pf (row # rows) sid = [] then m sid
      else Some ((case m sid of None \<Rightarrow> [] | Some q \<Rightarrow> q) @ shapeRowPoints pf (row # rows) sid))"
  proof (cases "shapePointOf pf row")
    case None
    then show ?thesis by (simp add: shapeStep_alt shapeRowPoints_Cons)
  next
    case (Some sp)
    obtain s p where sp: "sp = (s, p)" by (cases sp)
    show ?thesis
    proof (cases "s = sid")
      case True
      with Some sp show ?thesis
        by (simp add: shapeStep_alt shapeRowPoints_Cons split: option.splits)
    next
      case False
      with Some sp show ?thesis
        by (simp add: shapeStep_alt shapeRowPoints_Cons)
    qed
  qed
  finally show ?case .
qed

lemma buildShapes_alt:
  "buildShapes pf rows sid =
     (if shapeRowPoints pf rows sid = [] then None
      else Some (jsSort shapeCompare (shapeRowPoints pf rows sid)))"
  by (simp add: buildShapes_def fold_shapeStep)

lemma loadStaticData_shapes:
  "loadStaticData tza pf tb = Inr sd \<Longrightarrow> shapesById sd = buildShapes pf (shapesRaw tb)"
  by (auto simp: loadStaticData_def Let_def split: sum.splits)

lemma shapeHandler_built:
  assumes "loadStaticData tza pf tb = Inr sd" "shapeId \<noteq> []"
  shows "shapeHandler sd (Some shapeId)
           = Json (jsSort shapeCompare (shapeRowPoints pf (shapesRaw tb) shapeId))"
  using loadStaticData_shapes[OF assms(1)] assms(2)
  by (simp add: shapeHandler_def falsyStr_def buildShapes_alt jsSort_def)

text \<open>
  C9, amended. For the index that \<open>loadStaticData\<close> builds, the shape endpoint returns
  the points the rows of the shapes table give to the shape, in non-decreasing order of
  sequence number. The order is strictly ascending exactly when those rows carry
  pairwise distinct sequence numbers (a blank or non-numeric cell counting as 0).
\<close>

theorem shapePolyline_ascending:
  assumes "loadStaticData tza pf tb = Inr sd" and "shapeId \<noteq> []"
  shows "\<exists>ps. shapeHandler sd (Some shapeId) = Json ps
           \<and> set ps = set (shapeRowPoints pf (shapesRaw tb) shapeId)
           \<and> length ps = length (shapeRowPoints pf (shapesRaw tb) shapeId)
           \<and> sorted (map shape_pt_sequence ps)
           \<and> (sorted_wrt (<) (map shape_pt_sequence ps)
                \<longleftrightarrow> distinct (map shape_pt_sequence
                               (shapeRowPoints pf (shapesRaw tb) shapeId)))"
proof -
  let ?rows = "shapeRowPoints pf (shapesRaw tb) shapeId"
  let ?ps = "jsSort shapeCompare ?rows"
  have "sorted_wrt (<) (map shape_pt_sequence ?ps) \<longleftrightarrow> distinct (map shape_pt_sequence ?rows)"
    using sorted_jsSort_shape[of ?rows]
    by (simp add: strict_sorted_iff distinct_map_jsSort)
  then show ?thesis
    using shapeHandler_built[OF assms] sorted_jsSort_shape[of ?rows]
    by (simp add: set_jsSort length_jsSort)
qed

theorem shapePolyline_ascending_witness:
  "\<exists>sd. loadStaticData utc plainFloat
           (exampleShapeTables [exampleShapeRow ''A'' ''44'' ''2'', exampleShapeRow ''A'' ''45'' ''1''])
         = Inr sd
       \<and> ''A'' \<noteq> []
       \<and> distinct (map shape_pt_sequence
            (shapeRowPoints plainFloat
               [exampleShapeRow ''A'' ''44'' ''2'', exampleShapeRow ''A'' ''45'' ''1''] ''A''))
       \<and> (\<exists>ps. shapeHandler sd (Some ''A'') = Json ps
              \<and> length ps = 2
              \<and> sorted_wrt (<) (map shape_pt_sequence ps))"
proof -
  let ?rows = "[exampleShapeRow ''A'' ''44'' ''2'', exampleShapeRow ''A'' ''45'' ''1'']"
  have "\<not> isl (loadStaticData utc plainFloat (exampleShapeTables ?rows))" by code_simp
  then obtain sd where h1: "loadStaticData utc plainFloat (exampleShapeTables ?rows) = Inr sd"
    by (cases "loadStaticData utc plainFloat (exampleShapeTables ?rows)") auto
  have h2: "''A'' \<noteq> []" by simp
  have r: "shapesRaw (exampleShapeTables ?rows) = ?rows" by (simp add: exampleShapeTables_def)
  have d: "distinct (map shape_pt_sequence (shapeRowPoints plainFloat ?rows ''A''))"
    by code_simp
  have l: "length (shapeRowPoints plainFloat ?rows ''A'') = 2" by code_simp
  from shapePolyline_ascending[OF h1 h2] d l
  have "\<exists>ps. shapeHandler sd (Some ''A'') = Json ps \<and> length ps = 2
           \<and> sorted_wrt (<) (map shape_pt_sequence ps)"
    by (auto simp: r)
  with h1 h2 d show ?thesis by blast
qed

text \<open>
  C9 as stated fails: two rows of shape A with sequence number 1 give a polyline of two
  points that share the sequence number.
\<close>

theorem shapePolyline_ascending_counterexample:
  "map_sum (\<lambda>e. e) (\<lambda>sd. shapeHandler sd (Some ''A''))
     (loadStaticData utc plainFloat
        (exampleShapeTables [exampleShapeRow ''A'' ''44'' ''1'', exampleShapeRow ''A'' ''45'' ''1'']))
   = Inr (Json [\<lparr> shape_pt_lat = 44, shape_pt_lon = - 63, shape_pt_sequence = 1 \<rparr>,
                \<lparr> shape_pt_lat = 45, shape_pt_lon = - 63, shape_pt_sequence = 1 \<rparr>])"
  by code_simp

section \<open>Truncation of the scheduled arrivals (claim C6)\<close>







section \<open>Trips the archive does not know (claim C10)\<close>

lemma keys_mapSet: "fst ` set (mapSet k v m) = insert k (fst ` set m)"
proof -
  have "set (map fst (mapSet k v m)) = insert k (set (map fst m))"
    by (auto simp: map_fst_mapSet)
  then show ?thesis by simp
qed

lemma list_all_mapSet: "list_all P m \<Longrightarrow> P (k, v) \<Longrightarrow> list_all P (mapSet k v m)"
  by (induction m) auto

lemma mapGet_keys: "mapGet m k \<noteq> None \<longleftrightarrow> k \<in> fst ` set m"
  by (simp add: mapGet_def map_of_eq_None_iff)

lemma stuStep_cases:
  "stopTimeUpdateStep lc fmt now stopId trId tu tripInfo routeInfo stu m = m
   \<or> (\<exists>ts. stopTimeUpdateStep lc fmt now stopId trId tu tripInfo routeInfo stu m
          = mapSet trId
              \<lparr> tripId = trId, arrivalTime = formatHHMM fmt (ts * 1000),
                arrivalLabel = (case tu_vehicle tu of None \<Rightarrow> None | Some v \<Rightarrow> vd_label v),
                stopSequence = stu_stopSequence stu,
                routeId = (case tripInfo of None \<Rightarrow> None | Some t \<Rightarrow> t_route_id t),
                routeShortName = (case routeInfo of None \<Rightarrow> None | Some r \<Rightarrow> r_route_short_name r),
                routeLongName = (case routeInfo of None \<Rightarrow> None | Some r \<Rightarrow> r_route_long_name r),
                headsign = (case tripInfo of None \<Rightarrow> None | Some t \<Rightarrow> t_trip_headsign t),
                dataSource = Realtime \<rparr> m)"
  by (auto simp: stopTimeUpdateStep_def Let_def)

lemma stuStep_keys_mono:
  "fst ` set m \<subseteq> fst ` set (stopTimeUpdateStep lc fmt now stopId trId tu tripInfo routeInfo stu m)"
  using stuStep_cases[of lc fmt now stopId trId tu tripInfo routeInfo stu m]
  by (elim disjE exE) (simp_all add: keys_mapSet subset_insertI)

lemma stuFold_keys_mono:
  "fst ` set m
     \<subseteq> fst ` set (fold (stopTimeUpdateStep lc fmt now stopId trId tu tripInfo routeInfo) stus m)"
proof (induction stus arbitrary: m)
  case Nil
  then show ?case by simp
next
  case (Cons s stus)
  have "fst ` set m \<subseteq> fst ` set (stopTimeUpdateStep lc fmt now stopId trId tu tripInfo routeInfo s m)"
    by (rule stuStep_keys_mono)
  also have "\<dots> \<subseteq> fst ` set (fold (stopTimeUpdateStep lc fmt now stopId trId tu tripInfo routeInfo) stus
                 (stopTimeUpdateStep lc fmt now stopId trId tu tripInfo routeInfo s m))"
    by (rule Cons.IH)
  finally show ?case by simp
qed

lemma entityStep_keys_mono: "fst ` set m \<subseteq> fst ` set (entityStep lc fmt sd now stopId e m)"
  by (auto simp: entityStep_def Let_def split: option.splits
      intro: subsetD[OF stuFold_keys_mono])

lemma entityFold_keys_mono:
  "fst ` set m \<subseteq> fst ` set (fold (entityStep lc fmt sd now stopId) es m)"
proof (induction es arbitrary: m)
  case Nil
  then show ?case by simp
next
  case (Cons e es)
  have "fst ` set m \<subseteq> fst ` set (entityStep lc fmt sd now stopId e m)"
    by (rule entityStep_keys_mono)
  also have "\<dots> \<subseteq> fst ` set (fold (entityStep lc fmt sd now stopId) es
                 (entityStep lc fmt sd now stopId e m))"
    by (rule Cons.IH)
  finally show ?case by simp
qed

lemma stuStep_adds:
  assumes "stu_stopId stu = Some stopId"
    and "orElse (case stu_arrival stu of None \<Rightarrow> None | Some a \<Rightarrow> ste_time a)
                (case stu_departure stu of None \<Rightarrow> None | Some d \<Rightarrow> ste_time d) = Some ts"
    and "ts \<noteq> 0" "now \<le> ts * 1000" "ts * 1000 \<le> now + 2 * 60 * 60 * 1000"
  shows "trId \<in> fst ` set (stopTimeUpdateStep lc fmt now stopId trId tu tripInfo routeInfo stu m)"
proof (cases "mapGet m trId")
  case None
  with assms show ?thesis
    by (simp add: stopTimeUpdateStep_def Let_def keys_mapSet)
next
  case (Some a)
  then have "trId \<in> fst ` set m" using mapGet_keys[of m trId] by simp
  then show ?thesis using stuStep_keys_mono by blast
qed

lemma stuFold_adds:
  assumes "stu \<in> set stus" "stu_stopId stu = Some stopId"
    and "orElse (case stu_arrival stu of None \<Rightarrow> None | Some a \<Rightarrow> ste_time a)
                (case stu_departure stu of None \<Rightarrow> None | Some d \<Rightarrow> ste_time d) = Some ts"
    and "ts \<noteq> 0" "now \<le> ts * 1000" "ts * 1000 \<le> now + 2 * 60 * 60 * 1000"
  shows "trId \<in> fst ` set (fold (stopTimeUpdateStep lc fmt now stopId trId tu tripInfo routeInfo) stus m)"
proof -
  from assms(1) obtain pre post where sp: "stus = pre @ stu # post"
    by (auto simp: in_set_conv_decomp)
  let ?f = "stopTimeUpdateStep lc fmt now stopId trId tu tripInfo routeInfo"
  have "trId \<in> fst ` set (?f stu (fold ?f pre m))"
    using assms(2-) by (rule stuStep_adds)
  then have "trId \<in> fst ` set (fold ?f post (?f stu (fold ?f pre m)))"
    using stuFold_keys_mono by blast
  then show ?thesis by (simp add: sp)
qed

lemma entityStep_adds:
  assumes "fe_tripUpdate e = Some tu" "tu_trip tu = Some td" "td_tripId td = Some t" "t \<noteq> []"
    and "tu_stopTimeUpdate tu = Some stus" "stu \<in> set stus" "stu_stopId stu = Some stopId"
    and "orElse (case stu_arrival stu of None \<Rightarrow> None | Some a \<Rightarrow> ste_time a)
                (case stu_departure stu of None \<Rightarrow> None | Some d \<Rightarrow> ste_time d) = Some ts"
    and "ts \<noteq> 0" "now \<le> ts * 1000" "ts * 1000 \<le> now + 2 * 60 * 60 * 1000"
  shows "t \<in> fst ` set (entityStep lc fmt sd now stopId e m)"
  using assms(1-5) stuFold_adds[OF assms(6-)]
  by (simp add: entityStep_def Let_def falsyStr_def)

lemma entityFold_adds:
  assumes "e \<in> set es"
    and "fe_tripUpdate e = Some tu" "tu_trip tu = Some td" "td_tripId td = Some t" "t \<noteq> []"
    and "tu_stopTimeUpdate tu = Some stus" "stu \<in> set stus" "stu_stopId stu = Some stopId"
    and "orElse (case stu_arrival stu of None \<Rightarrow> None | Some a \<Rightarrow> ste_time a)
                (case stu_departure stu of None \<Rightarrow> None | Some d \<Rightarrow> ste_time d) = Some ts"
    and "ts \<noteq> 0" "now \<le> ts * 1000" "ts * 1000 \<le> now + 2 * 60 * 60 * 1000"
  shows "t \<in> fst ` set (realtimeArrivalsByTrip lc fmt sd now stopId es)"
proof -
  from assms(1) obtain pre post where sp: "es = pre @ e # post"
    by (auto simp: in_set_conv_decomp)
  let ?f = "entityStep lc fmt sd now stopId"
  have "t \<in> fst ` set (?f e (fold ?f pre []))"
    using assms(2-) by (rule entityStep_adds)
  then have "t \<in> fst ` set (fold ?f post (?f e (fold ?f pre [])))"
    using entityFold_keys_mono by blast
  then show ?thesis by (simp add: sp realtimeArrivalsByTrip_def)
qed

lemma stuStep_inv:
  assumes "rtInv sd m" "tripInfo = staticTripsById sd trId" "tripInfo = None \<longrightarrow> routeInfo = None"
  shows "rtInv sd (stopTimeUpdateStep lc fmt now stopId trId tu tripInfo routeInfo stu m)"
  using stuStep_cases[of lc fmt now stopId trId tu tripInfo routeInfo stu m] assms
  unfolding rtInv_def
  by (auto intro!: list_all_mapSet)

lemma stuFold_inv:
  assumes "rtInv sd m" "tripInfo = staticTripsById sd trId" "tripInfo = None \<longrightarrow> routeInfo = None"
  shows "rtInv sd (fold (stopTimeUpdateStep lc fmt now stopId trId tu tripInfo routeInfo) stus m)"
  using assms(1)
proof (induction stus arbitrary: m)
  case Nil
  then show ?case by simp
next
  case (Cons s stus)
  then show ?case using stuStep_inv[OF _ assms(2,3)] by simp
qed

lemma entityStep_inv: "rtInv sd m \<Longrightarrow> rtInv sd (entityStep lc fmt sd now stopId e m)"
  by (auto simp: entityStep_def Let_def split: option.splits intro!: stuFold_inv)

lemma entityFold_inv: "rtInv sd m \<Longrightarrow> rtInv sd (fold (entityStep lc fmt sd now stopId) es m)"
  by (induction es arbitrary: m) (auto simp: entityStep_inv)

lemma rtInv_Nil: "rtInv sd []"
  by (simp add: rtInv_def)

lemma realtime_inv: "rtInv sd (realtimeArrivalsByTrip lc fmt sd now stopId es)"
  by (simp add: realtimeArrivalsByTrip_def entityFold_inv rtInv_Nil)

lemma scheduled_known:
  "s \<in> set (getScheduledArrivalsAtStop tza sd now stopId time) \<Longrightarrow>
     staticTripsById sd (tripId s) \<noteq> None"
  by (auto simp: getScheduledArrivalsAtStop_def Let_def scheduledArrival_def tripRunning_def
      split: option.splits)

lemma rtInv_member:
  assumes "rtInv sd m" "a \<in> set (mapValues m)" "staticTripsById sd (tripId a) = None"
  shows "routeId a = None \<and> routeShortName a = None \<and> routeLongName a = None
         \<and> headsign a = None \<and> dataSource a = Realtime"
proof -
  from assms(2) obtain k where "(k, a) \<in> set m" by (auto simp: mapValues_def)
  with assms(1) have "tripId a = k \<and> dataSource a = Realtime
      \<and> (staticTripsById sd k = None \<longrightarrow>
            routeId a = None \<and> routeShortName a = None
            \<and> routeLongName a = None \<and> headsign a = None)"
    by (auto simp: rtInv_def list_all_iff)
  with assms(3) show ?thesis by simp
qed

lemma rtInv_key:
  assumes "rtInv sd m" "t \<in> fst ` set m"
  shows "\<exists>a \<in> set (mapValues m). tripId a = t"
proof -
  from assms(2) obtain a where ta: "(t, a) \<in> set m" by auto
  with assms(1) have "tripId a = t" by (auto simp: rtInv_def list_all_iff)
  moreover from ta have "a \<in> set (mapValues m)" by (force simp: mapValues_def)
  ultimately show ?thesis by blast
qed

lemma getBuses_set:
  "length (realtimeArrivalsByTrip lc fmt sd now stopId es) \<le> 20 \<Longrightarrow>
     getBusesArrivingAtStop lc fmt sd now (Inr es) stopId
       = Inr (jsSort (arrivalCompare lc) (mapValues (realtimeArrivalsByTrip lc fmt sd now stopId es)))"
  by (simp add: getBusesArrivingAtStop_def length_jsSort mapValues_def)

lemma getBuses_subset:
  "getBusesArrivingAtStop lc fmt sd now (Inr es) stopId = Inr res \<Longrightarrow>
     set res \<subseteq> set (mapValues (realtimeArrivalsByTrip lc fmt sd now stopId es))"
proof -
  assume "getBusesArrivingAtStop lc fmt sd now (Inr es) stopId = Inr res"
  then have "res = take 20 (jsSort (arrivalCompare lc)
                 (mapValues (realtimeArrivalsByTrip lc fmt sd now stopId es)))"
    by (simp add: getBusesArrivingAtStop_def)
  then show ?thesis
    using set_take_subset[of 20 "jsSort (arrivalCompare lc)
                 (mapValues (realtimeArrivalsByTrip lc fmt sd now stopId es))"]
    by (simp add: set_jsSort)
qed

text \<open>
  C10, amended. Take a trip update whose trip identifier is not in the static trip index
  and which predicts the stop (arrival time, else departure time) between now and two
  hours from now. The realtime query builds an arrival for that trip, with absent route
  identifier, route names and headsign, and returns one unless the cut to 20 removes it
  (it cannot when at most 20 trips qualify). Every realtime arrival of an unknown trip
  has these fields absent. The schedule query never returns an arrival of an unknown
  trip.
\<close>

theorem unknown_trip_realtime_kept_scheduled_dropped:
  assumes "e \<in> set entities"
    and "fe_tripUpdate e = Some tu" "tu_trip tu = Some td" "td_tripId td = Some t" "t \<noteq> []"
    and "tu_stopTimeUpdate tu = Some stus" "stu \<in> set stus" "stu_stopId stu = Some stopId"
    and "orElse (case stu_arrival stu of None \<Rightarrow> None | Some a \<Rightarrow> ste_time a)
                (case stu_departure stu of None \<Rightarrow> None | Some d \<Rightarrow> ste_time d) = Some ts"
    and "ts \<noteq> 0" "now \<le> ts * 1000" "ts * 1000 \<le> now + 2 * 60 * 60 * 1000"
    and "staticTripsById sd t = None"
  shows "(\<exists>a \<in> set (mapValues (realtimeArrivalsByTrip lc fmt sd now stopId entities)).
            tripId a = t \<and> routeId a = None \<and> routeShortName a = None
            \<and> routeLongName a = None \<and> headsign a = None \<and> dataSource a = Realtime)
         \<and> (length (realtimeArrivalsByTrip lc fmt sd now stopId entities) \<le> 20 \<longrightarrow>
              (\<exists>res. getBusesArrivingAtStop lc fmt sd now (Inr entities) stopId = Inr res
                 \<and> (\<exists>a \<in> set res.
                       tripId a = t \<and> routeId a = None \<and> routeShortName a = None
                       \<and> routeLongName a = None \<and> headsign a = None \<and> dataSource a = Realtime)))
         \<and> (\<forall>res. getBusesArrivingAtStop lc fmt sd now (Inr entities) stopId = Inr res \<longrightarrow>
              (\<forall>a \<in> set res. staticTripsById sd (tripId a) = None \<longrightarrow>
                 routeId a = None \<and> routeShortName a = None
                 \<and> routeLongName a = None \<and> headsign a = None \<and> dataSource a = Realtime))
         \<and> (\<forall>s \<in> set (getScheduledArrivalsAtStop tza sd clock stopId time).
              staticTripsById sd (tripId s) \<noteq> None)"
proof -
  let ?m = "realtimeArrivalsByTrip lc fmt sd now stopId entities"
  let ?P = "\<lambda>a. tripId a = t \<and> routeId a = None \<and> routeShortName a = None
            \<and> routeLongName a = None \<and> headsign a = None \<and> dataSource a = Realtime"
  have inv: "rtInv sd ?m" by (rule realtime_inv)
  have key: "t \<in> fst ` set ?m"
    using assms(1-12) by (rule entityFold_adds)
  from rtInv_key[OF inv key] obtain a where a: "a \<in> set (mapValues ?m)" "tripId a = t"
    by blast
  with rtInv_member[OF inv a(1)] assms(13) have pa: "?P a" by simp
  have p1: "\<exists>a \<in> set (mapValues ?m). ?P a" using a(1) pa by blast
  have p2: "length ?m \<le> 20 \<longrightarrow>
              (\<exists>res. getBusesArrivingAtStop lc fmt sd now (Inr entities) stopId = Inr res
                 \<and> (\<exists>a \<in> set res. ?P a))"
  proof
    assume "length ?m \<le> 20"
    then have "getBusesArrivingAtStop lc fmt sd now (Inr entities) stopId
                 = Inr (jsSort (arrivalCompare lc) (mapValues ?m))"
      by (rule getBuses_set)
    moreover have "a \<in> set (jsSort (arrivalCompare lc) (mapValues ?m))"
      using a(1) by (simp add: set_jsSort)
    ultimately show "\<exists>res. getBusesArrivingAtStop lc fmt sd now (Inr entities) stopId = Inr res
                 \<and> (\<exists>a \<in> set res. ?P a)"
      using pa by blast
  qed
  have p3: "\<forall>res. getBusesArrivingAtStop lc fmt sd now (Inr entities) stopId = Inr res \<longrightarrow>
              (\<forall>a \<in> set res. staticTripsById sd (tripId a) = None \<longrightarrow>
                 routeId a = None \<and> routeShortName a = None
                 \<and> routeLongName a = None \<and> headsign a = None \<and> dataSource a = Realtime)"
    using getBuses_subset rtInv_member[OF inv] by blast
  have p4: "\<forall>s \<in> set (getScheduledArrivalsAtStop tza sd clock stopId time).
              staticTripsById sd (tripId s) \<noteq> None"
    using scheduled_known by blast
  from p1 p2 p3 p4 show ?thesis by (intro conjI)
qed

theorem unknown_trip_realtime_kept_scheduled_dropped_witness:
  "exampleTripUpdate ''U0'' ''S1'' 1709535660 \<in> set [exampleTripUpdate ''U0'' ''S1'' 1709535660]
   \<and> staticTripsById exampleStatic ''U0'' = None
   \<and> monday0700 \<le> 1709535660 * 1000 \<and> 1709535660 * 1000 \<le> monday0700 + 2 * 60 * 60 * 1000
   \<and> length (realtimeArrivalsByTrip codeUnitCompare exampleClock exampleStatic monday0700 ''S1''
        [exampleTripUpdate ''U0'' ''S1'' 1709535660]) \<le> 20
   \<and> (\<exists>res. getBusesArrivingAtStop codeUnitCompare exampleClock exampleStatic monday0700
          (Inr [exampleTripUpdate ''U0'' ''S1'' 1709535660]) ''S1'' = Inr res
        \<and> (\<exists>a \<in> set res. tripId a = ''U0'' \<and> routeId a = None \<and> routeShortName a = None
              \<and> routeLongName a = None \<and> headsign a = None \<and> dataSource a = Realtime))
   \<and> set (getScheduledArrivalsAtStop utc exampleStatic monday0700 ''S1'' monday0700) \<noteq> {}"
proof -
  let ?e = "exampleTripUpdate ''U0'' ''S1'' 1709535660"
  let ?stu = "\<lparr> stu_stopId = Some ''S1'', stu_arrival = Some \<lparr> ste_time = Some 1709535660 \<rparr>,
                stu_departure = None, stu_stopSequence = None \<rparr>"
  let ?td = "\<lparr> td_tripId = Some ''U0'', td_routeId = None, td_directionId = None,
               td_scheduleRelationship = None \<rparr>"
  let ?tu = "\<lparr> tu_trip = Some ?td, tu_vehicle = None, tu_stopTimeUpdate = Some [?stu] \<rparr>"
  have h1: "?e \<in> set [?e]" by simp
  have h2: "fe_tripUpdate ?e = Some ?tu" by (simp add: exampleTripUpdate_def)
  have h3: "tu_trip ?tu = Some ?td" by simp
  have h4: "td_tripId ?td = Some ''U0''" by simp
  have h5: "''U0'' \<noteq> []" by simp
  have h6: "tu_stopTimeUpdate ?tu = Some [?stu]" by simp
  have h7: "?stu \<in> set [?stu]" by simp
  have h8: "stu_stopId ?stu = Some ''S1''" by simp
  have h9: "orElse (case stu_arrival ?stu of None \<Rightarrow> None | Some a \<Rightarrow> ste_time a)
                (case stu_departure ?stu of None \<Rightarrow> None | Some d \<Rightarrow> ste_time d)
              = Some 1709535660"
    by (simp add: orElse_def)
  have h10: "(1709535660::int) \<noteq> 0" by simp
  have h11: "monday0700 \<le> 1709535660 * 1000" by (simp add: monday0700_def)
  have h12: "1709535660 * 1000 \<le> monday0700 + 2 * 60 * 60 * 1000" by (simp add: monday0700_def)
  have h13: "staticTripsById exampleStatic ''U0'' = None" by code_simp
  have l: "length (realtimeArrivalsByTrip codeUnitCompare exampleClock exampleStatic monday0700 ''S1''
        [?e]) \<le> 20"
    by code_simp
  have n: "set (getScheduledArrivalsAtStop utc exampleStatic monday0700 ''S1'' monday0700) \<noteq> {}"
    by code_simp
  note T = unknown_trip_realtime_kept_scheduled_dropped[OF h1 h2 h3 h4 h5 h6 h7 h8 h9 h10 h11 h12 h13,
      of codeUnitCompare exampleClock utc monday0700 monday0700]
  from T l have r: "\<exists>res. getBusesArrivingAtStop codeUnitCompare exampleClock exampleStatic monday0700
          (Inr [?e]) ''S1'' = Inr res
        \<and> (\<exists>a \<in> set res. tripId a = ''U0'' \<and> routeId a = None \<and> routeShortName a = None
              \<and> routeLongName a = None \<and> headsign a = None \<and> dataSource a = Realtime)"
    by blast
  from h1 h13 h11 h12 l r n show ?thesis by (intro conjI)
qed

text \<open>
  C10 as stated fails where the cut applies: of 21 unknown trips predicted at S1, the
  realtime query returns 20, and none for U20.
\<close>

theorem unknown_trip_realtime_cut_counterexample:
  "staticTripsById exampleStatic ''U20'' = None
   \<and> ''U20'' \<in> fe_id ` set exampleFeed21
   \<and> map_sum (\<lambda>e. e) (map tripId)
        (getBusesArrivingAtStop codeUnitCompare exampleClock exampleStatic monday0700
           (Inr exampleFeed21) ''S1'')
       = Inr [''U0'', ''U1'', ''U2'', ''U3'', ''U4'', ''U5'', ''U6'', ''U7'', ''U8'', ''U9'',
              ''U10'', ''U11'', ''U12'', ''U13'', ''U14'', ''U15'', ''U16'', ''U17'', ''U18'',
              ''U19'']"
  by code_simp

end
